theory Spec2Isabelle
  imports Complex_Main "HOL-Library.Log_Nat" "HOL-Library.Code_Target_Numeral"
begin

section \<open>JavaScript numbers\<close>

text \<open>
  The props of \<^verbatim>\<open>ProgressTracker\<close> are JavaScript numbers: IEEE 754 binary64 values.
  A number is NaN, an infinity with its sign, or a finite value given by its sign bit
  (\<open>True\<close> for negative) and its magnitude, a rational; \<open>Finite True 0\<close> is \<open>-0\<close>.
  The arithmetic follows ECMA-262: the exact result is rounded to the nearest double,
  ties to even, and a rounded magnitude of \<open>2 ^ 1024\<close> or more overflows to infinity.
\<close>

datatype number = NaN | Infinity bool | Finite bool rat

text \<open>Rounding a rational to the nearest integer, ties to the even one.\<close>

definition round_half_even :: "rat \<Rightarrow> int" where
  "round_half_even y =
     (let f = \<lfloor>y\<rfloor>; d = y - of_int f
      in if d < 1 / 2 then f else if 1 / 2 < d then f + 1 else if even f then f else f + 1)"

text \<open>
  The binary exponent \<open>e\<close> of a positive rational: \<open>2 powi e \<le> m < 2 powi (e + 1)\<close>,
  computed from the bit lengths of numerator and denominator.
\<close>

definition binary_exponent :: "rat \<Rightarrow> int" where
  "binary_exponent m =
     (let (p, q) = quotient_of m;
          d = int (floorlog 2 (nat p)) - int (floorlog 2 (nat q))
      in if m < 2 powi d then d - 1 else d)"

text \<open>
  The exponent of the binade a magnitude is rounded in: below \<open>2 powi (- 1022)\<close> the
  doubles are subnormal and keep the exponent \<open>- 1022\<close>.
\<close>

definition exponent :: "rat \<Rightarrow> int" where
  "exponent m = (if m < 2 powi (- 1022) then - 1022 else binary_exponent m)"

text \<open>The distance between neighbouring doubles there: 53 significant bits.\<close>

definition ulp :: "rat \<Rightarrow> rat" where
  "ulp m = 2 powi (exponent m - 52)"

definition nearest_double :: "rat \<Rightarrow> rat" where
  "nearest_double m = of_int (round_half_even (m / ulp m)) * ulp m"

text \<open>
  The Number value for a sign and an exact magnitude (the conversion written \<open>\<bbbF>\<close> in
  ECMA-262): rounded, and infinite on overflow.
\<close>

definition to_number :: "bool \<Rightarrow> rat \<Rightarrow> number" where
  "to_number s m =
     (let r = nearest_double m in if 2 ^ 1024 \<le> r then Infinity s else Finite s r)"

text \<open>
  The values of the type: a finite magnitude is not negative and is a double below
  \<open>2 ^ 1024\<close>.
\<close>

fun is_double :: "number \<Rightarrow> bool" where
  "is_double NaN = True"
| "is_double (Infinity s) = True"
| "is_double (Finite s m) = (0 \<le> m \<and> to_number s m = Finite s m)"

text \<open>The operator \<^verbatim>\<open>/\<close> on numbers (ECMA-262, Number::divide).\<close>

fun Number_divide :: "number \<Rightarrow> number \<Rightarrow> number" where
  "Number_divide NaN y = NaN"
| "Number_divide x NaN = NaN"
| "Number_divide (Infinity sx) (Infinity sy) = NaN"
| "Number_divide (Infinity sx) (Finite sy my) = Infinity (sx \<noteq> sy)"
| "Number_divide (Finite sx mx) (Infinity sy) = Finite (sx \<noteq> sy) 0"
| "Number_divide (Finite sx mx) (Finite sy my) =
     (if my = 0 then (if mx = 0 then NaN else Infinity (sx \<noteq> sy))
      else to_number (sx \<noteq> sy) (mx / my))"

text \<open>The operator \<^verbatim>\<open>*\<close> on numbers (ECMA-262, Number::multiply).\<close>

fun Number_multiply :: "number \<Rightarrow> number \<Rightarrow> number" where
  "Number_multiply NaN y = NaN"
| "Number_multiply x NaN = NaN"
| "Number_multiply (Infinity sx) (Infinity sy) = Infinity (sx \<noteq> sy)"
| "Number_multiply (Infinity sx) (Finite sy my) =
     (if my = 0 then NaN else Infinity (sx \<noteq> sy))"
| "Number_multiply (Finite sx mx) (Infinity sy) =
     (if mx = 0 then NaN else Infinity (sx \<noteq> sy))"
| "Number_multiply (Finite sx mx) (Finite sy my) = to_number (sx \<noteq> sy) (mx * my)"

text \<open>
  \<^verbatim>\<open>Math.round\<close>: NaN and the infinities are returned as they are; a finite value goes to
  the nearest integer, a tie to the one closer to \<open>+\<infinity>\<close>. The sign is kept, so that
  values in \<open>[-0.5, 0)\<close> and \<open>-0\<close> give \<open>-0\<close>, and values in \<open>[0, 0.5)\<close> give \<open>+0\<close>.
\<close>

fun Math_round :: "number \<Rightarrow> number" where
  "Math_round NaN = NaN"
| "Math_round (Infinity s) = Infinity s"
| "Math_round (Finite s m) =
     Finite s (of_int (if s then \<lceil>m - 1 / 2\<rceil> else \<lfloor>m + 1 / 2\<rfloor>))"

text \<open>
  The comparisons \<^verbatim>\<open><\<close>, \<^verbatim>\<open>==\<close> and \<^verbatim>\<open><=\<close> on numbers: false whenever an operand is
  NaN, and \<open>-0\<close> equals \<open>+0\<close>.
\<close>

definition signed :: "bool \<Rightarrow> rat \<Rightarrow> rat" where
  "signed s m = (if s then - m else m)"

fun Number_lessThan :: "number \<Rightarrow> number \<Rightarrow> bool" where
  "Number_lessThan NaN y = False"
| "Number_lessThan x NaN = False"
| "Number_lessThan (Infinity sx) (Infinity sy) = (sx \<and> \<not> sy)"
| "Number_lessThan (Infinity sx) (Finite sy my) = sx"
| "Number_lessThan (Finite sx mx) (Infinity sy) = (\<not> sy)"
| "Number_lessThan (Finite sx mx) (Finite sy my) = (signed sx mx < signed sy my)"

fun Number_equal :: "number \<Rightarrow> number \<Rightarrow> bool" where
  "Number_equal NaN y = False"
| "Number_equal x NaN = False"
| "Number_equal (Infinity sx) (Infinity sy) = (sx = sy)"
| "Number_equal (Infinity sx) (Finite sy my) = False"
| "Number_equal (Finite sx mx) (Infinity sy) = False"
| "Number_equal (Finite sx mx) (Finite sy my) = (signed sx mx = signed sy my)"

definition Number_lessEq :: "number \<Rightarrow> number \<Rightarrow> bool" where
  "Number_lessEq x y = (Number_lessThan x y \<or> Number_equal x y)"


subsection \<open>Numbers as strings\<close>

text \<open>
  The conversion of a number to a string (ECMA-262, Number::toString with radix 10),
  which a template literal and the rendering of a number child apply. For a finite
  nonzero magnitude it takes the integers \<open>n\<close>, \<open>k\<close> and \<open>s\<close> with
  \<open>10 ^ (k - 1) \<le> s < 10 ^ k\<close> whose decimal \<open>s * 10 powi (n - k)\<close> rounds to the number,
  with \<open>k\<close> as small as possible and, among those, the decimal closest to the number
  (the even \<open>s\<close> on a tie).
\<close>

definition digit :: "nat \<Rightarrow> char" where
  "digit d = ''0123456789'' ! d"

fun decimal :: "nat \<Rightarrow> string" where
  "decimal n = (if n < 10 then [digit n] else decimal (n div 10) @ [digit (n mod 10)])"

declare decimal.simps [simp del]

text \<open>The decimal exponent \<open>n\<close> of a positive rational: \<open>10 powi (n - 1) \<le> m < 10 powi n\<close>.\<close>

definition decimal_exponent :: "rat \<Rightarrow> int" where
  "decimal_exponent m =
     (let (p, q) = quotient_of m;
          d = int (floorlog 10 (nat p)) - int (floorlog 10 (nat q))
      in if m < 10 powi d then d else d + 1)"

definition represents :: "rat \<Rightarrow> nat \<Rightarrow> int \<times> int \<Rightarrow> bool" where
  "represents x k c =
     (case c of (n, s) \<Rightarrow>
        10 ^ (k - 1) \<le> s \<and> s < 10 ^ k
        \<and> to_number False (of_int s * 10 powi (n - int k)) = Finite False x)"

definition distance :: "rat \<Rightarrow> nat \<Rightarrow> int \<times> int \<Rightarrow> rat" where
  "distance x k c = (case c of (n, s) \<Rightarrow> \<bar>of_int s * 10 powi (n - int k) - x\<bar>)"

text \<open>
  The closest decimal of \<open>k\<close> digits that rounds to \<open>x\<close>, if there is one: the candidates
  are the \<open>k\<close>-digit decimals next to \<open>x\<close> below and above (the one above may be the next
  power of ten).
\<close>

definition closest :: "rat \<Rightarrow> nat \<Rightarrow> (int \<times> int) option" where
  "closest x k =
     (let n = decimal_exponent x;
          lo = (n, \<lfloor>x / 10 powi (n - int k)\<rfloor>);
          hi = (if \<lceil>x / 10 powi (n - int k)\<rceil> < 10 ^ k
                then (n, \<lceil>x / 10 powi (n - int k)\<rceil>) else (n + 1, 10 ^ (k - 1)))
      in if represents x k lo \<and> represents x k hi then
           (if distance x k lo < distance x k hi then Some lo
            else if distance x k hi < distance x k lo then Some hi
            else if even (snd lo) then Some lo else Some hi)
         else if represents x k lo then Some lo
         else if represents x k hi then Some hi
         else None)"

text \<open>
  The search for the smallest \<open>k\<close>, from \<open>k\<close> upwards. Seventeen digits identify every
  double, so the last branch is only there to make the function total.
\<close>

function shortest :: "nat \<Rightarrow> rat \<Rightarrow> int \<times> nat \<times> int" where
  "shortest k x =
     (case closest x k of
        Some (n, s) \<Rightarrow> (n, k, s)
      | None \<Rightarrow>
          if k < 17 then shortest (Suc k) x
          else (decimal_exponent x, k, \<lfloor>x / 10 powi (decimal_exponent x - int k)\<rfloor>))"
  by pat_completeness auto
termination
  by (relation "measure (\<lambda>(k, x). 17 - k)") auto

declare shortest.simps [simp del]

text \<open>
  The text for \<open>n\<close>, \<open>k\<close> and \<open>s\<close>: plain decimal notation when \<open>- 5 \<le> n \<le> 21\<close>,
  exponential notation otherwise.
\<close>

definition digits_text :: "int \<times> nat \<times> int \<Rightarrow> string" where
  "digits_text nks =
     (case nks of (n, k, s) \<Rightarrow>
        let ds = decimal (nat s) in
        if - 5 \<le> n \<and> n \<le> 21 then
          (if int k \<le> n then ds @ replicate (nat (n - int k)) CHR ''0''
           else if 0 < n then take (nat n) ds @ ''.'' @ drop (nat n) ds
           else ''0.'' @ replicate (nat (- n)) CHR ''0'' @ ds)
        else
          (if k = 1 then ds else take 1 ds @ ''.'' @ drop 1 ds)
            @ ''e'' @ (if n < 0 then ''-'' else ''+'') @ decimal (nat \<bar>n - 1\<bar>))"

fun Number_toString :: "number \<Rightarrow> string" where
  "Number_toString NaN = ''NaN''"
| "Number_toString (Infinity s) = (if s then ''-Infinity'' else ''Infinity'')"
| "Number_toString (Finite s m) =
     (if m = 0 then ''0''
      else (if s then ''-'' else []) @ digits_text (shortest 1 m))"

declare Number_toString.simps(3) [simp del]


section \<open>The ProgressTracker component\<close>

text \<open>
  What a component returns: a tree of React elements. An element has a type, props (a
  string, or a style object) and children; a child is an element, a text or a number.
  A number child is rendered as its string.
\<close>

datatype prop_value = StringValue string | StyleObject "(string \<times> string) list"

datatype node =
  TextChild string
  | NumberChild number
  | Element string "(string \<times> prop_value) list" "node list"

datatype exception = Uncaught string

record ProgressTrackerProps =
  section_prop :: number
  completedTasks :: number
  totalTasks :: number

text \<open>
  \<^verbatim>\<open>src/components/ProgressTracker.tsx\<close>, lines 11 to 32. Division, multiplication,
  \<^verbatim>\<open>Math.round\<close> and the template literal do not throw on numbers and the component has
  no \<^verbatim>\<open>throw\<close>, no hook and no effect: it returns its element, the right summand. The left
  summand stands for an exception leaving the component.
\<close>

definition ProgressTracker :: "ProgressTrackerProps \<Rightarrow> exception + node" where
  "ProgressTracker props =
     (let percentage =
        Math_round
          (Number_multiply (Number_divide (completedTasks props) (totalTasks props))
            (Finite False 100))
      in Inr
        (Element ''div'' [(''className'', StringValue ''progress-tracker'')]
          [Element ''h3'' []
             [TextChild ''Section '', NumberChild (section_prop props), TextChild '' Progress''],
           Element ''div'' [(''className'', StringValue ''progress-bar'')]
             [Element ''div''
                [(''className'', StringValue ''progress''),
                 (''style'', StyleObject [(''width'', Number_toString percentage @ ''%'')])]
                []],
           Element ''p'' []
             [NumberChild (completedTasks props), TextChild '' of '',
              NumberChild (totalTasks props), TextChild '' tasks completed ('',
              NumberChild percentage, TextChild ''%)'']]))"

text \<open>
  The percentage as the specification words it:
  \<^verbatim>\<open>round(completedTasks / totalTasks * 100)\<close>.
\<close>

definition percentage_spec :: "number \<Rightarrow> number \<Rightarrow> number" where
  "percentage_spec completed tasks =
     Math_round (Number_multiply (Number_divide completed tasks) (Finite False 100))"

text \<open>
  What the page shows of a rendered tree: the text of a node (a number as its string),
  the first element of a class or of a type, and the width in an element's style.
\<close>

fun text_content :: "node \<Rightarrow> string" where
  "text_content (TextChild s) = s"
| "text_content (NumberChild n) = Number_toString n"
| "text_content (Element t ps cs) = concat (map text_content cs)"

fun first_some :: "'a option list \<Rightarrow> 'a option" where
  "first_some [] = None"
| "first_some (Some x # xs) = Some x"
| "first_some (None # xs) = first_some xs"

fun find_class :: "string \<Rightarrow> node \<Rightarrow> node option" where
  "find_class c (TextChild s) = None"
| "find_class c (NumberChild n) = None"
| "find_class c (Element t ps cs) =
     (if map_of ps ''className'' = Some (StringValue c) then Some (Element t ps cs)
      else first_some (map (find_class c) cs))"

fun find_type :: "string \<Rightarrow> node \<Rightarrow> node option" where
  "find_type ty (TextChild s) = None"
| "find_type ty (NumberChild n) = None"
| "find_type ty (Element t ps cs) =
     (if t = ty then Some (Element t ps cs) else first_some (map (find_type ty) cs))"

fun style_width :: "node \<Rightarrow> string option" where
  "style_width (Element t ps cs) =
     (case map_of ps ''style'' of
        Some (StyleObject st) \<Rightarrow> map_of st ''width''
      | _ \<Rightarrow> None)"
| "style_width _ = None"

definition bar_width :: "node \<Rightarrow> string option" where
  "bar_width tree = (case find_class ''progress'' tree of None \<Rightarrow> None | Some e \<Rightarrow> style_width e)"

definition counts_text :: "node \<Rightarrow> string option" where
  "counts_text tree = map_option text_content (find_type ''p'' tree)"


section \<open>The exercise pages\<close>

text \<open>
  The component instances of the exercise pages, in source order, each with its type and
  the names of the props it is given. \<^verbatim>\<open>jsx-syntax-exercises.mdx\<close> holds the exercises on
  JSX syntax and, after them, those on React components.
\<close>

record jsx_instance =
  component :: string
  prop_names :: "string list"

definition introduction_to_react :: "jsx_instance list" where
  "introduction_to_react =
     [\<lparr>component = ''ProgressTracker'',
         prop_names = [''section'', ''completedTasks'', ''totalTasks'']\<rparr>,
      \<lparr>component = ''Callout'', prop_names = [''emoji'']\<rparr>,
      \<lparr>component = ''Quiz'', prop_names = [''question'', ''options'', ''correctAnswer'']\<rparr>,
      \<lparr>component = ''Quiz'', prop_names = [''question'', ''options'', ''correctAnswer'']\<rparr>,
      \<lparr>component = ''CodingChallenge'', prop_names = [''initialCode'', ''solution'']\<rparr>,
      \<lparr>component = ''CodingChallenge'', prop_names = [''initialCode'', ''solution'']\<rparr>]"

definition jsx_syntax_exercises :: "jsx_instance list" where
  "jsx_syntax_exercises =
     [\<lparr>component = ''ProgressTracker'',
         prop_names = [''section'', ''completedTasks'', ''totalTasks'']\<rparr>,
      \<lparr>component = ''Callout'', prop_names = [''emoji'']\<rparr>,
      \<lparr>component = ''Quiz'', prop_names = [''question'', ''options'', ''correctAnswer'']\<rparr>,
      \<lparr>component = ''Quiz'', prop_names = [''question'', ''options'', ''correctAnswer'']\<rparr>,
      \<lparr>component = ''Quiz'', prop_names = [''question'', ''options'', ''correctAnswer'']\<rparr>,
      \<lparr>component = ''CodingChallenge'', prop_names = [''initialCode'', ''solution'']\<rparr>,
      \<lparr>component = ''CodingChallenge'', prop_names = [''initialCode'', ''solution'']\<rparr>,
      \<lparr>component = ''CodingChallenge'', prop_names = [''initialCode'', ''solution'']\<rparr>]"

definition react_components_exercises :: "jsx_instance list" where
  "react_components_exercises =
     [\<lparr>component = ''ProgressTracker'',
         prop_names = [''section'', ''completedTasks'', ''totalTasks'']\<rparr>,
      \<lparr>component = ''Callout'', prop_names = [''emoji'']\<rparr>,
      \<lparr>component = ''Quiz'', prop_names = [''question'', ''options'', ''correctAnswer'']\<rparr>,
      \<lparr>component = ''Quiz'', prop_names = [''question'', ''options'', ''correctAnswer'']\<rparr>,
      \<lparr>component = ''Quiz'', prop_names = [''question'', ''options'', ''correctAnswer'']\<rparr>,
      \<lparr>component = ''CodingChallenge'', prop_names = [''initialCode'', ''solution'']\<rparr>,
      \<lparr>component = ''CodingChallenge'', prop_names = [''initialCode'', ''solution'']\<rparr>,
      \<lparr>component = ''CodingChallenge'', prop_names = [''initialCode'', ''solution'']\<rparr>]"

definition exercise_pages :: "jsx_instance list" where
  "exercise_pages = introduction_to_react @ jsx_syntax_exercises @ react_components_exercises"

definition coding_challenges :: "jsx_instance list \<Rightarrow> jsx_instance list" where
  "coding_challenges page = filter (\<lambda>i. component i = ''CodingChallenge'') page"


section \<open>The Quiz widget\<close>

text \<open>
  The exercise pages import \<^verbatim>\<open>Quiz\<close> from \<^verbatim>\<open>components/Quiz\<close> and instantiate it with
  the props \<^verbatim>\<open>question\<close>, \<^verbatim>\<open>options\<close> and \<^verbatim>\<open>correctAnswer\<close>. The component file itself is
  not among the sources, so the state machine below follows the specification.
\<close>

record QuizSpec =
  question :: string
  options :: "string list"
  correctAnswer :: string

record QuizState =
  selectedOption :: "string option"
  submitted :: bool

datatype config_error = ConfigurationError

text \<open>
  Modelled from the spec: the initial state of a Quiz instance (the component
  \<^verbatim>\<open>components/Quiz\<close> is missing): \<^verbatim>\<open>selectedOption\<close> unset, \<^verbatim>\<open>submitted == false\<close>.
\<close>
definition Quiz_initial :: QuizState where
  "Quiz_initial = \<lparr>selectedOption = None, submitted = False\<rparr>"

text \<open>
  Modelled from the spec: construction of a Quiz (the component \<^verbatim>\<open>components/Quiz\<close> is
  missing). Section 4.1: a \<^verbatim>\<open>correctAnswer\<close> that is not present in \<^verbatim>\<open>options\<close> is a
  configuration error caught at construction time by validating
  \<^verbatim>\<open>options.includes(correctAnswer)\<close>.
\<close>
definition Quiz_new :: "QuizSpec \<Rightarrow> config_error + QuizState" where
  "Quiz_new spec =
     (if correctAnswer spec \<in> set (options spec) then Inr Quiz_initial
      else Inl ConfigurationError)"

text \<open>
  Modelled from the spec: \<^verbatim>\<open>select(option)\<close> of the missing Quiz component: sets
  \<^verbatim>\<open>selectedOption\<close>; a no-op once \<^verbatim>\<open>submitted\<close> is true.
\<close>
definition Quiz_select :: "string \<Rightarrow> QuizState \<Rightarrow> QuizState" where
  "Quiz_select opt st = (if submitted st then st else st\<lparr>selectedOption := Some opt\<rparr>)"

text \<open>
  Modelled from the spec: \<^verbatim>\<open>submit()\<close> of the missing Quiz component: a no-op when no
  option is selected, otherwise sets \<^verbatim>\<open>submitted = true\<close>; idempotent.
\<close>
definition Quiz_submit :: "QuizState \<Rightarrow> QuizState" where
  "Quiz_submit st =
     (case selectedOption st of None \<Rightarrow> st | Some _ \<Rightarrow> st\<lparr>submitted := True\<rparr>)"

text \<open>
  Modelled from the spec: \<^verbatim>\<open>reset()\<close> of the missing Quiz component: clears
  \<^verbatim>\<open>selectedOption\<close> and \<^verbatim>\<open>submitted\<close>.
\<close>
definition Quiz_reset :: "QuizState \<Rightarrow> QuizState" where
  "Quiz_reset st = st\<lparr>selectedOption := None, submitted := False\<rparr>"

text \<open>
  Modelled from the spec: the derived value
  \<^verbatim>\<open>isCorrect = submitted && selectedOption == correctAnswer\<close>.
\<close>
definition isCorrect :: "QuizSpec \<Rightarrow> QuizState \<Rightarrow> bool" where
  "isCorrect spec st = (submitted st \<and> selectedOption st = Some (correctAnswer spec))"

text \<open>The user actions that the claims quantify over, and their replay on a state.\<close>

datatype quiz_action = Select string | Submit

fun Quiz_apply :: "QuizState \<Rightarrow> quiz_action \<Rightarrow> QuizState" where
  "Quiz_apply st (Select opt) = Quiz_select opt st"
| "Quiz_apply st Submit = Quiz_submit st"

definition Quiz_replay :: "quiz_action list \<Rightarrow> QuizState \<Rightarrow> QuizState" where
  "Quiz_replay acts st = foldl Quiz_apply st acts"

text \<open>Modelled from the spec: the three states of the Quiz state machine of section 4.1.\<close>

datatype quiz_phase = Unanswered | Selected | Submitted

definition Quiz_phase :: "QuizState \<Rightarrow> quiz_phase" where
  "Quiz_phase st =
     (if submitted st then Submitted
      else case selectedOption st of None \<Rightarrow> Unanswered | Some _ \<Rightarrow> Selected)"


section \<open>The CodeSandbox and the CodingChallenge widget\<close>

text \<open>
  The pages import \<^verbatim>\<open>CodingChallenge\<close> from \<^verbatim>\<open>components/CodingChallenge\<close>; the component
  and the sandbox it runs code in are not among the sources, so both follow the
  specification. What evaluating a code string does is a parameter: the evaluator either
  completes with rendered output, throws, or fails to parse.
\<close>

datatype evaluation = Completes string | Throws string | ParseFails string

datatype Result = Output string | Error string

text \<open>
  Modelled from the spec: \<^verbatim>\<open>CodeSandbox.run(code)\<close> (the sandbox is missing). Section 4.2:
  a thrown exception or a syntax error inside the code is caught and converted into an
  error \<^verbatim>\<open>Result\<close>. The left summand stands for an exception leaving \<^verbatim>\<open>run\<close>.
\<close>
definition CodeSandbox_run :: "(string \<Rightarrow> evaluation) \<Rightarrow> string \<Rightarrow> exception + Result" where
  "CodeSandbox_run evaluate code =
     (case evaluate code of
        Completes out \<Rightarrow> Inr (Output out)
      | Throws msg \<Rightarrow> Inr (Error msg)
      | ParseFails msg \<Rightarrow> Inr (Error msg))"

record ChallengeSpec =
  initialCode :: string
  solutionCode :: string

record ChallengeState =
  draftCode :: string
  viewingSolution :: bool
  lastRunOutput :: "Result option"

text \<open>
  Modelled from the spec: construction of the missing CodingChallenge component:
  \<^verbatim>\<open>draftCode\<close> starts as \<^verbatim>\<open>initialCode\<close>, in state Editing, with no run output.
\<close>
definition Challenge_new :: "ChallengeSpec \<Rightarrow> ChallengeState" where
  "Challenge_new spec =
     \<lparr>draftCode = initialCode spec, viewingSolution = False, lastRunOutput = None\<rparr>"

text \<open>
  Modelled from the spec: the code the editor surface shows: \<^verbatim>\<open>solutionCode\<close> while
  \<^verbatim>\<open>viewingSolution\<close>, else \<^verbatim>\<open>draftCode\<close>.
\<close>
definition displayedCode :: "ChallengeSpec \<Rightarrow> ChallengeState \<Rightarrow> string" where
  "displayedCode spec st = (if viewingSolution st then solutionCode spec else draftCode st)"

text \<open>
  Modelled from the spec: \<^verbatim>\<open>edit(newText)\<close>: updates \<^verbatim>\<open>draftCode\<close> and clears
  \<^verbatim>\<open>lastRunOutput\<close>; a disallowed no-op while the solution is viewed (section 7).
\<close>
definition edit :: "string \<Rightarrow> ChallengeState \<Rightarrow> ChallengeState" where
  "edit newText st =
     (if viewingSolution st then st
      else st\<lparr>draftCode := newText, lastRunOutput := None\<rparr>)"

text \<open>
  Modelled from the spec: \<^verbatim>\<open>run()\<close>: calls \<^verbatim>\<open>CodeSandbox.run\<close> on the code currently
  displayed and stores the result as \<^verbatim>\<open>lastRunOutput\<close>. An exception leaving the sandbox
  would leave \<^verbatim>\<open>run()\<close> too.
\<close>
definition run :: "(string \<Rightarrow> evaluation) \<Rightarrow> ChallengeSpec \<Rightarrow> ChallengeState
    \<Rightarrow> exception + ChallengeState" where
  "run evaluate spec st =
     (case CodeSandbox_run evaluate (displayedCode spec st) of
        Inl e \<Rightarrow> Inl e
      | Inr r \<Rightarrow> Inr (st\<lparr>lastRunOutput := Some r\<rparr>))"

text \<open>Modelled from the spec: \<^verbatim>\<open>showSolution()\<close> sets \<^verbatim>\<open>viewingSolution = true\<close>.\<close>
definition showSolution :: "ChallengeState \<Rightarrow> ChallengeState" where
  "showSolution st = st\<lparr>viewingSolution := True\<rparr>"

text \<open>Modelled from the spec: \<^verbatim>\<open>hideSolution()\<close> sets \<^verbatim>\<open>viewingSolution = false\<close>.\<close>
definition hideSolution :: "ChallengeState \<Rightarrow> ChallengeState" where
  "hideSolution st = st\<lparr>viewingSolution := False\<rparr>"

text \<open>
  Modelled from the spec: \<^verbatim>\<open>tryAgain()\<close> sets \<^verbatim>\<open>draftCode = initialCode\<close>,
  \<^verbatim>\<open>viewingSolution = false\<close> and clears \<^verbatim>\<open>lastRunOutput\<close>.
\<close>
definition tryAgain :: "ChallengeSpec \<Rightarrow> ChallengeState \<Rightarrow> ChallengeState" where
  "tryAgain spec st =
     st\<lparr>draftCode := initialCode spec, viewingSolution := False, lastRunOutput := None\<rparr>"

definition edits :: "string list \<Rightarrow> ChallengeState \<Rightarrow> ChallengeState" where
  "edits texts st = foldl (\<lambda>s t. edit t s) st texts"


section \<open>Rounding to the nearest double\<close>

text \<open>Floors and ceilings of literal fractions, for evaluating the definitions.\<close>

lemma floor_rat_numeral [simp]:
  "\<lfloor>numeral a / numeral b :: rat\<rfloor> = numeral a div numeral b"
  by (metis floor_divide_of_int_eq of_int_numeral)

lemma floor_rat_neg_numeral [simp]:
  "\<lfloor>- (numeral a / numeral b) :: rat\<rfloor> = - numeral a div numeral b"
  by (metis divide_minus_left floor_divide_of_int_eq of_int_neg_numeral of_int_numeral)

lemma ceiling_rat_numeral [simp]:
  "\<lceil>numeral a / numeral b :: rat\<rceil> = - (- numeral a div numeral b)"
  by (simp add: ceiling_def)

lemma ceiling_rat_neg_numeral [simp]:
  "\<lceil>- (numeral a / numeral b) :: rat\<rceil> = - (numeral a div numeral b)"
  by (simp add: ceiling_def)

subsection \<open>Rounding to the nearest integer is monotone\<close>

lemma round_half_even_of_int: "round_half_even (of_int n) = n"
  by (simp add: round_half_even_def)

lemma round_half_even_cases:
  "round_half_even y = \<lfloor>y\<rfloor> \<and> y - of_int \<lfloor>y\<rfloor> \<le> 1 / 2
   \<or> round_half_even y = \<lfloor>y\<rfloor> + 1 \<and> 1 / 2 \<le> y - of_int \<lfloor>y\<rfloor>"
  by (auto simp: round_half_even_def Let_def)

lemma round_half_even_mono:
  assumes "a \<le> b"
  shows "round_half_even a \<le> round_half_even b"
proof (cases "\<lfloor>a\<rfloor> = \<lfloor>b\<rfloor>")
  case True
  with assms show ?thesis
    by (auto simp: round_half_even_def Let_def)
next
  case False
  with assms have "\<lfloor>a\<rfloor> + 1 \<le> \<lfloor>b\<rfloor>"
    using floor_mono [of a b] by linarith
  moreover have "round_half_even a \<le> \<lfloor>a\<rfloor> + 1"
    using round_half_even_cases [of a] by auto
  moreover have "\<lfloor>b\<rfloor> \<le> round_half_even b"
    using round_half_even_cases [of b] by auto
  ultimately show ?thesis
    by linarith
qed

lemma round_half_even_ge: "of_int n \<le> a \<Longrightarrow> n \<le> round_half_even a"
  using round_half_even_mono [of "of_int n" a] by (simp add: round_half_even_of_int)

lemma round_half_even_le: "a \<le> of_int n \<Longrightarrow> round_half_even a \<le> n"
  using round_half_even_mono [of a "of_int n"] by (simp add: round_half_even_of_int)

subsection \<open>The exponent of a magnitude\<close>

lemma binary_exponent_bounds:
  assumes "0 < m"
  shows "2 powi (binary_exponent m) \<le> m" and "m < 2 powi (binary_exponent m + 1)"
proof -
  obtain p q where pq: "quotient_of m = (p, q)"
    by (cases "quotient_of m")
  then have q: "0 < q" and m: "m = of_int p / of_int q"
    by (auto simp: quotient_of_denom_pos quotient_of_div)
  from assms m q have p: "0 < p"
    by (simp add: zero_less_divide_iff)
  define bp where "bp = floorlog 2 (nat p)"
  define bq where "bq = floorlog 2 (nat q)"
  define d where "d = int bp - int bq"
  have bpb: "2 ^ (bp - 1) \<le> nat p" "nat p < 2 ^ bp"
    using floorlog_bounds [of "nat p" 2] p by (simp_all add: bp_def)
  have bqb: "2 ^ (bq - 1) \<le> nat q" "nat q < 2 ^ bq"
    using floorlog_bounds [of "nat q" 2] q by (simp_all add: bq_def)
  have bp1: "1 \<le> bp" and bq1: "1 \<le> bq"
    using p q by (simp_all add: bp_def bq_def floorlog_def)
  have P: "(2::rat) ^ (bp - 1) \<le> of_int p" "of_int p < (2::rat) ^ bp"
  proof -
    have "of_nat (2 ^ (bp - 1)) \<le> (of_nat (nat p) :: rat)"
      using bpb(1) of_nat_le_iff by blast
    then show "(2::rat) ^ (bp - 1) \<le> of_int p" using p by simp
    have "(of_nat (nat p) :: rat) < of_nat (2 ^ bp)"
      using bpb(2) of_nat_less_iff by blast
    then show "of_int p < (2::rat) ^ bp" using p by simp
  qed
  have Q: "(2::rat) ^ (bq - 1) \<le> of_int q" "of_int q < (2::rat) ^ bq"
  proof -
    have "of_nat (2 ^ (bq - 1)) \<le> (of_nat (nat q) :: rat)"
      using bqb(1) of_nat_le_iff by blast
    then show "(2::rat) ^ (bq - 1) \<le> of_int q" using q by simp
    have "(of_nat (nat q) :: rat) < of_nat (2 ^ bq)"
      using bqb(2) of_nat_less_iff by blast
    then show "of_int q < (2::rat) ^ bq" using q by simp
  qed
  have qpos: "(0::rat) < of_int q" using q by simp
  have lower: "2 powi (d - 1) < m"
  proof -
    have "d - 1 = int (bp - 1) - int bq"
      using bp1 by (simp add: d_def of_nat_diff)
    then have "2 powi (d - 1) = (2::rat) ^ (bp - 1) / 2 ^ bq"
      by (simp add: power_int_diff)
    also have "\<dots> \<le> of_int p / 2 ^ bq"
      using P(1) by (simp add: divide_right_mono)
    also have "\<dots> < of_int p / of_int q"
      by (rule divide_strict_left_mono [OF Q(2)]) (use p qpos in simp_all)
    finally show ?thesis by (simp add: m)
  qed
  have upper: "m < 2 powi (d + 1)"
  proof -
    have "m = of_int p / of_int q" by (rule m)
    also have "\<dots> < 2 ^ bp / of_int q"
      using P(2) qpos by (simp add: divide_strict_right_mono)
    also have "\<dots> \<le> 2 ^ bp / 2 ^ (bq - 1)"
      by (rule divide_left_mono [OF Q(1)]) (use qpos in simp_all)
    finally have "m < 2 ^ bp / 2 ^ (bq - 1)" .
    moreover have "d + 1 = int bp - int (bq - 1)"
      using bq1 by (simp add: d_def of_nat_diff)
    then have "2 powi (d + 1) = (2::rat) ^ bp / 2 ^ (bq - 1)"
      by (simp add: power_int_diff)
    ultimately show ?thesis by simp
  qed
  have be: "binary_exponent m = (if m < 2 powi d then d - 1 else d)"
    by (simp add: binary_exponent_def pq d_def bp_def bq_def Let_def)
  show "2 powi (binary_exponent m) \<le> m"
    using lower by (simp add: be)
  show "m < 2 powi (binary_exponent m + 1)"
    using upper by (simp add: be)
qed


lemma exponent_subnormal: "m < 2 powi (- 1022) \<Longrightarrow> exponent m = - 1022"
  by (simp add: exponent_def)

lemma exponent_normal: "2 powi (- 1022) \<le> m \<Longrightarrow> exponent m = binary_exponent m"
  by (simp add: exponent_def)

lemma normal_pos: "2 powi (- 1022) \<le> m \<Longrightarrow> (0::rat) < m"
proof -
  assume "2 powi (- 1022) \<le> m"
  moreover have "(0::rat) < 2 powi (- 1022)"
    by (rule zero_less_power_int) simp
  ultimately show ?thesis by linarith
qed

lemma exponent_lower: "2 powi (- 1022) \<le> m \<Longrightarrow> 2 powi (exponent m) \<le> m"
  using binary_exponent_bounds(1) [of m] normal_pos [of m] by (simp add: exponent_normal)

lemma exponent_upper:
  assumes "0 \<le> m"
  shows "m < 2 powi (exponent m + 1)"
proof (cases "m < 2 powi (- 1022)")
  case True
  have "(2::rat) powi (- 1022) \<le> 2 powi (- 1022 + 1)"
    by (rule power_int_increasing) simp_all
  with True show ?thesis
    by (simp add: exponent_subnormal)
next
  case False
  then have n: "2 powi (- 1022) \<le> m" by simp
  then show ?thesis
    using binary_exponent_bounds(2) [of m] normal_pos [of m] by (simp add: exponent_normal)
qed

lemma powi_two_less_imp: "(2::rat) powi a < 2 powi b \<Longrightarrow> a < b"
proof (rule ccontr)
  assume less: "(2::rat) powi a < 2 powi b" and "\<not> a < b"
  then have "b \<le> a" by simp
  then have "(2::rat) powi b \<le> 2 powi a"
    by (rule power_int_increasing) simp
  with less show False by simp
qed

lemma exponent_ge: "- 1022 \<le> exponent m"
proof (cases "m < 2 powi (- 1022)")
  case True
  then show ?thesis by (simp add: exponent_subnormal)
next
  case False
  then have n: "2 powi (- 1022) \<le> m" by simp
  then have "m < 2 powi (exponent m + 1)"
    using exponent_upper [of m] normal_pos [of m] by simp
  with n have "(2::rat) powi (- 1022) < 2 powi (exponent m + 1)"
    by (rule le_less_trans)
  then have "- 1022 < exponent m + 1"
    by (rule powi_two_less_imp)
  then show ?thesis by simp
qed

lemma exponent_unique:
  assumes "2 powi e \<le> m" "m < 2 powi (e + 1)" "- 1022 \<le> e"
  shows "exponent m = e"
proof -
  have "(2::rat) powi (- 1022) \<le> 2 powi e"
    using assms(3) by (rule power_int_increasing) simp
  with assms(1) have n: "2 powi (- 1022) \<le> m" by simp
  have "(2::rat) powi e < 2 powi (exponent m + 1)"
    using assms(1) exponent_upper [of m] normal_pos [OF n] by simp
  then have a: "e < exponent m + 1" by (rule powi_two_less_imp)
  have "(2::rat) powi (exponent m) < 2 powi (e + 1)"
    using exponent_lower [OF n] assms(2) by simp
  then have "exponent m < e + 1" by (rule powi_two_less_imp)
  with a show ?thesis by simp
qed

lemma exponent_mono:
  assumes "0 \<le> x" "x \<le> y"
  shows "exponent x \<le> exponent y"
proof (rule ccontr)
  assume "\<not> exponent x \<le> exponent y"
  then have less: "exponent y < exponent x" by simp
  with exponent_ge [of y] have "exponent x \<noteq> - 1022" by simp
  then have n: "2 powi (- 1022) \<le> x"
    using exponent_subnormal [of x] by fastforce
  have "2 powi (exponent x) \<le> x"
    using n by (rule exponent_lower)
  also have "x \<le> y" by fact
  also have "y < 2 powi (exponent y + 1)"
    using assms by (intro exponent_upper) simp
  finally have "exponent x < exponent y + 1"
    by (rule powi_two_less_imp)
  with less show False by simp
qed

subsection \<open>The nearest double is monotone in the magnitude\<close>

lemma ulp_pos: "0 < ulp m"
  unfolding ulp_def by (rule zero_less_power_int) simp

lemma nearest_double_nonneg:
  assumes "0 \<le> m"
  shows "0 \<le> nearest_double m"
proof -
  have "of_int 0 \<le> m / ulp m"
    using assms ulp_pos [of m] by simp
  then have "0 \<le> round_half_even (m / ulp m)"
    by (rule round_half_even_ge)
  then show ?thesis
    using ulp_pos [of m] by (simp add: nearest_double_def)
qed

lemma nearest_double_upper:
  assumes "0 \<le> m"
  shows "nearest_double m \<le> 2 powi (exponent m + 1)"
proof -
  have split: "(2::rat) powi (exponent m + 1) = 2 ^ 53 * ulp m"
  proof -
    have "(2::rat) powi (exponent m - 52 + 53) = 2 powi (exponent m - 52) * 2 powi 53"
      by (rule power_int_add) simp
    then show ?thesis by (simp add: ulp_def mult.commute add.commute)
  qed
  have "m \<le> 2 ^ 53 * ulp m"
    using exponent_upper [OF assms] split by simp
  then have "m / ulp m \<le> 2 ^ 53"
    using ulp_pos [of m] by (simp add: pos_divide_le_eq)
  then have "m / ulp m \<le> of_int (2 ^ 53)" by simp
  then have "round_half_even (m / ulp m) \<le> 2 ^ 53"
    by (rule round_half_even_le)
  then have "(of_int (round_half_even (m / ulp m)) :: rat) \<le> of_int (2 ^ 53)"
    by (simp only: of_int_le_iff)
  then have "of_int (round_half_even (m / ulp m)) * ulp m \<le> 2 ^ 53 * ulp m"
    using ulp_pos [of m] by simp
  then show ?thesis
    by (simp add: nearest_double_def split)
qed

lemma nearest_double_lower:
  assumes "2 powi (- 1022) \<le> m"
  shows "2 powi (exponent m) \<le> nearest_double m"
proof -
  have split: "(2::rat) powi (exponent m) = 2 ^ 52 * ulp m"
  proof -
    have "(2::rat) powi (exponent m - 52 + 52) = 2 powi (exponent m - 52) * 2 powi 52"
      by (rule power_int_add) simp
    then show ?thesis by (simp add: ulp_def mult.commute)
  qed
  have "2 ^ 52 * ulp m \<le> m"
    using exponent_lower [OF assms] split by simp
  then have "2 ^ 52 \<le> m / ulp m"
    using ulp_pos [of m] by (simp add: pos_le_divide_eq)
  then have "of_int (2 ^ 52) \<le> m / ulp m" by simp
  then have "2 ^ 52 \<le> round_half_even (m / ulp m)"
    by (rule round_half_even_ge)
  then have "(of_int (2 ^ 52) :: rat) \<le> of_int (round_half_even (m / ulp m))"
    by (simp only: of_int_le_iff)
  then have "2 ^ 52 * ulp m \<le> of_int (round_half_even (m / ulp m)) * ulp m"
    using ulp_pos [of m] by simp
  then show ?thesis
    by (simp add: nearest_double_def split)
qed

lemma nearest_double_mono:
  assumes "0 \<le> x" "x \<le> y"
  shows "nearest_double x \<le> nearest_double y"
proof (cases "exponent x = exponent y")
  case True
  then have u: "ulp x = ulp y" by (simp add: ulp_def)
  have "x / ulp y \<le> y / ulp y"
    using assms(2) ulp_pos [of y] by (simp add: divide_right_mono)
  then have "round_half_even (x / ulp y) \<le> round_half_even (y / ulp y)"
    by (rule round_half_even_mono)
  then have "(of_int (round_half_even (x / ulp y)) :: rat) \<le> of_int (round_half_even (y / ulp y))"
    by (simp only: of_int_le_iff)
  then show ?thesis
    using ulp_pos [of y] by (simp add: nearest_double_def u)
next
  case False
  with exponent_mono [OF assms] have less: "exponent x + 1 \<le> exponent y" by simp
  with exponent_ge [of x] have "exponent y \<noteq> - 1022" by simp
  then have n: "2 powi (- 1022) \<le> y"
    using exponent_subnormal [of y] by fastforce
  have "nearest_double x \<le> 2 powi (exponent x + 1)"
    using assms(1) by (rule nearest_double_upper)
  also have "(2::rat) powi (exponent x + 1) \<le> 2 powi (exponent y)"
    using less by (rule power_int_increasing) simp
  also have "\<dots> \<le> nearest_double y"
    using n by (rule nearest_double_lower)
  finally show ?thesis .
qed

lemma nearest_double_eq:
  assumes "2 powi e \<le> m" "m < 2 powi (e + 1)" "- 1022 \<le> e"
  shows "nearest_double m = of_int (round_half_even (m / 2 powi (e - 52))) * 2 powi (e - 52)"
  using exponent_unique [OF assms] by (simp add: nearest_double_def ulp_def)

subsection \<open>Integers below \<open>2 ^ 53\<close> are doubles\<close>

lemma exponent_le_52:
  assumes "m < 2 ^ 53"
  shows "exponent m \<le> 52"
proof (rule ccontr)
  assume "\<not> exponent m \<le> 52"
  then have big: "53 \<le> exponent m" by simp
  then have "exponent m \<noteq> - 1022" by simp
  then have n: "2 powi (- 1022) \<le> m"
    using exponent_subnormal [of m] by fastforce
  have "(2::rat) powi 53 \<le> 2 powi (exponent m)"
    using big by (rule power_int_increasing) simp
  also have "\<dots> \<le> m"
    using n by (rule exponent_lower)
  finally show False
    using assms by simp
qed

lemma nearest_double_of_int:
  assumes "0 \<le> n" "n < 2 ^ 53"
  shows "nearest_double (of_int n) = of_int n"
proof -
  define m :: rat where "m = of_int n"
  define j where "j = nat (52 - exponent m)"
  have "m < 2 ^ 53"
    using assms(2) unfolding m_def by (metis of_int_less_iff of_int_numeral of_int_power)
  then have "exponent m \<le> 52"
    by (rule exponent_le_52)
  then have e: "exponent m - 52 = - int j"
    by (simp add: j_def)
  have u: "ulp m = 1 / 2 ^ j"
    by (simp add: ulp_def e power_int_minus_divide)
  have "m / ulp m = of_int (n * 2 ^ j)"
    unfolding u by (simp add: m_def)
  then have "round_half_even (m / ulp m) = n * 2 ^ j"
    by (simp only: round_half_even_of_int)
  then have "nearest_double m = of_int (n * 2 ^ j) * (1 / 2 ^ j)"
    by (simp add: nearest_double_def u)
  then show ?thesis
    by (simp add: m_def)
qed

lemma to_number_of_int:
  assumes "0 \<le> n" "n < 2 ^ 53"
  shows "to_number s (of_int n) = Finite s (of_int n)"
proof -
  have "(of_int n :: rat) < 2 ^ 53"
    using assms(2) by (metis of_int_less_iff of_int_numeral of_int_power)
  moreover have "(2::rat) ^ 53 \<le> 2 ^ 1024"
    by (rule power_increasing) simp_all
  ultimately have "(of_int n :: rat) < 2 ^ 1024"
    by (rule less_le_trans)
  then have "\<not> (2::rat) ^ 1024 \<le> of_int n"
    by (simp only: not_le)
  then show ?thesis
    using nearest_double_of_int [OF assms] by (simp add: to_number_def)
qed

lemma to_number_numeral:
  "numeral k < (2::int) ^ 53 \<Longrightarrow> to_number s (numeral k) = Finite s (numeral k)"
  using to_number_of_int [of "numeral k" s] by simp

lemma to_number_zero: "to_number s 0 = Finite s 0"
  using to_number_of_int [of 0 s] by simp

lemma to_number_one: "to_number s 1 = Finite s 1"
  using to_number_of_int [of 1 s] by simp

subsection \<open>Evaluation at given inputs\<close>

text \<open>
  The rules that evaluate the string of an integer below \<open>2 ^ 53\<close>, and the value of
  \<open>to_number\<close> at a magnitude whose binade is given.
\<close>

lemmas string_eval =
  Number_toString.simps(3) shortest.simps closest_def decimal_exponent_def
  compute_floorlog represents_def distance_def digits_text_def decimal.simps digit_def
  Let_def to_number_numeral to_number_one

lemma to_number_eq:
  assumes "2 powi e \<le> m" "m < 2 powi (e + 1)" "- 1022 \<le> e" "e \<le> 1022"
  shows "to_number s m
    = Finite s (of_int (round_half_even (m / 2 powi (e - 52))) * 2 powi (e - 52))"
proof -
  have e: "exponent m = e"
    using assms(1-3) by (rule exponent_unique)
  have "(0::rat) < 2 powi e"
    by (rule zero_less_power_int) simp
  with assms(1) have "0 \<le> m" by linarith
  then have "nearest_double m \<le> 2 powi (exponent m + 1)"
    by (rule nearest_double_upper)
  also have "(2::rat) powi (exponent m + 1) \<le> 2 powi 1023"
    unfolding e using assms(4) by (intro power_int_increasing) simp_all
  also have "(2::rat) powi 1023 < 2 powi 1024"
    by (rule power_int_strict_increasing) simp_all
  finally have "nearest_double m < 2 ^ 1024"
    by simp
  then have "\<not> 2 ^ 1024 \<le> nearest_double m"
    by (simp only: not_le)
  then have "to_number s m = Finite s (nearest_double m)"
    by (simp add: to_number_def Let_def)
  then show ?thesis
    by (simp only: nearest_double_eq [OF assms(1-3)])
qed

lemma replicate_numeral: "replicate (numeral v) x = x # replicate (numeral v - 1) x"
  by (simp add: numeral_eq_Suc)

lemma Number_toString_1: "Number_toString (Finite False 1) = ''1''"
  by (simp add: string_eval)

lemma Number_toString_5: "Number_toString (Finite False 5) = ''5''"
  by (simp add: string_eval)

lemma Number_toString_20: "Number_toString (Finite False 20) = ''20''"
  by (simp add: string_eval)

lemma Number_toString_120: "Number_toString (Finite False 120) = ''120''"
  by (simp add: string_eval replicate_numeral)

lemma Number_toString_minus_20: "Number_toString (Finite True 20) = ''-20''"
  by (simp add: string_eval replicate_numeral)

lemma Number_toString_100: "Number_toString (Finite False 100) = ''100''"
  by (simp add: string_eval replicate_numeral)


section \<open>Properties of the percentage\<close>

lemma to_number_cases:
  "to_number s m = Infinity s \<or> to_number s m = Finite s (nearest_double m)"
  by (simp add: to_number_def Let_def)

lemma nearest_double_1: "nearest_double 1 = 1"
  using nearest_double_of_int [of 1] by simp

lemma nearest_double_100: "nearest_double 100 = 100"
  using nearest_double_of_int [of 100] by simp

lemma percentage_spec_Finite:
  "my \<noteq> 0 \<Longrightarrow> percentage_spec (Finite sx mx) (Finite sy my)
     = Math_round (Number_multiply (to_number (sx \<noteq> sy) (mx / my)) (Finite False 100))"
  by (simp add: percentage_spec_def)

lemma percentage_at_least_100:
  assumes "0 < mt" "mt < mc"
  shows "percentage_spec (Finite False mc) (Finite False mt) = Infinity False
    \<or> (\<exists>p. percentage_spec (Finite False mc) (Finite False mt) = Finite False p \<and> 100 \<le> p)"
proof -
  let ?q = "mc / mt"
  have q: "1 \<le> ?q"
    using assms by simp
  have r: "1 \<le> nearest_double ?q"
    using nearest_double_mono [of 1 ?q] q by (simp add: nearest_double_1)
  have start: "percentage_spec (Finite False mc) (Finite False mt)
      = Math_round (Number_multiply (to_number False ?q) (Finite False 100))"
    using assms(1) by (simp add: percentage_spec_Finite)
  from to_number_cases [of False ?q] show ?thesis
  proof
    assume "to_number False ?q = Infinity False"
    then show ?thesis
      by (simp add: start)
  next
    assume fin: "to_number False ?q = Finite False (nearest_double ?q)"
    let ?r = "nearest_double ?q"
    have "100 \<le> ?r * 100"
      using r by simp
    then have r': "100 \<le> nearest_double (?r * 100)"
      using nearest_double_mono [of 100 "?r * 100"] by (simp add: nearest_double_100)
    have step: "percentage_spec (Finite False mc) (Finite False mt)
        = Math_round (to_number False (?r * 100))"
      by (simp add: start fin)
    from to_number_cases [of False "?r * 100"] show ?thesis
    proof
      assume "to_number False (?r * 100) = Infinity False"
      then show ?thesis
        by (simp add: step)
    next
      assume fin': "to_number False (?r * 100) = Finite False (nearest_double (?r * 100))"
      let ?r' = "nearest_double (?r * 100)"
      have "(100::int) \<le> \<lfloor>?r' + 1 / 2\<rfloor>"
        using r' by (simp add: le_floor_iff)
      then have "(100::rat) \<le> of_int \<lfloor>?r' + 1 / 2\<rfloor>"
        by (metis of_int_le_iff of_int_numeral)
      then show ?thesis
        by (simp add: step fin')
    qed
  qed
qed

lemma percentage_at_most_0:
  assumes "0 < mt" "0 \<le> mc"
  shows "percentage_spec (Finite True mc) (Finite False mt) = Infinity True
    \<or> (\<exists>p. percentage_spec (Finite True mc) (Finite False mt) = Finite True p \<and> 0 \<le> p)"
proof -
  let ?q = "mc / mt"
  have q: "0 \<le> ?q"
    using assms by simp
  have start: "percentage_spec (Finite True mc) (Finite False mt)
      = Math_round (Number_multiply (to_number True ?q) (Finite False 100))"
    using assms(1) by (simp add: percentage_spec_Finite)
  from to_number_cases [of True ?q] show ?thesis
  proof
    assume "to_number True ?q = Infinity True"
    then show ?thesis
      by (simp add: start)
  next
    assume fin: "to_number True ?q = Finite True (nearest_double ?q)"
    let ?r = "nearest_double ?q"
    have "0 \<le> ?r * 100"
      using nearest_double_nonneg [OF q] by simp
    then have r': "0 \<le> nearest_double (?r * 100)"
      by (rule nearest_double_nonneg)
    have step: "percentage_spec (Finite True mc) (Finite False mt)
        = Math_round (to_number True (?r * 100))"
      by (simp add: start fin)
    from to_number_cases [of True "?r * 100"] show ?thesis
    proof
      assume "to_number True (?r * 100) = Infinity True"
      then show ?thesis
        by (simp add: step)
    next
      assume fin': "to_number True (?r * 100) = Finite True (nearest_double (?r * 100))"
      let ?r' = "nearest_double (?r * 100)"
      have "(0::int) \<le> \<lceil>?r' - 1 / 2\<rceil>"
        using r' by (simp add: le_ceiling_iff)
      then have "(0::rat) \<le> of_int \<lceil>?r' - 1 / 2\<rceil>"
        by simp
      then show ?thesis
        by (simp add: step fin')
    qed
  qed
qed

text \<open>The percentages of some inputs, each rounded twice: after the division and after
  the multiplication.\<close>

lemma percentage_1_of_5:
  "percentage_spec (Finite False 1) (Finite False 5) = Finite False 20"
proof -
  have quotient: "to_number False (1 / 5) = Finite False (3602879701896397 / 18014398509481984)"
    using to_number_eq [of "- 3" "1 / 5" False]
    by (simp add: round_half_even_def Let_def)
  have product: "to_number False (90071992547409925 / 4503599627370496) = Finite False 20"
    using to_number_eq [of 4 "90071992547409925 / 4503599627370496" False]
    by (simp add: round_half_even_def Let_def)
  show ?thesis
    by (simp add: percentage_spec_def quotient product)
qed

lemma percentage_1001_of_1000:
  "percentage_spec (Finite False 1001) (Finite False 1000) = Finite False 100"
proof -
  have quotient: "to_number False (1001 / 1000)
      = Finite False (2254051613498933 / 2251799813685248)"
    using to_number_eq [of 0 "1001 / 1000" False]
    by (simp add: round_half_even_def Let_def)
  have product: "to_number False (56351290337473325 / 562949953421312)
      = Finite False (3521955646092083 / 35184372088832)"
    using to_number_eq [of 6 "56351290337473325 / 562949953421312" False]
    by (simp add: round_half_even_def Let_def)
  show ?thesis
    by (simp add: percentage_spec_def quotient product)
qed

lemma percentage_minus_1_of_1000:
  "percentage_spec (Finite True 1) (Finite False 1000) = Finite True 0"
proof -
  have quotient: "to_number True (1 / 1000) = Finite True (1152921504606847 / 1152921504606846976)"
    using to_number_eq [of "- 10" "1 / 1000" True]
    by (simp add: round_half_even_def Let_def)
  have product: "to_number True (28823037615171175 / 288230376151711744)
      = Finite True (3602879701896397 / 36028797018963968)"
    using to_number_eq [of "- 4" "28823037615171175 / 288230376151711744" True]
    by (simp add: round_half_even_def Let_def)
  show ?thesis
    by (simp add: percentage_spec_def quotient product)
qed

lemma percentage_6_of_5:
  "percentage_spec (Finite False 6) (Finite False 5) = Finite False 120"
proof -
  have quotient: "to_number False (6 / 5) = Finite False (5404319552844595 / 4503599627370496)"
    using to_number_eq [of 0 "6 / 5" False]
    by (simp add: round_half_even_def Let_def)
  have product: "to_number False (135107988821114875 / 1125899906842624) = Finite False 120"
    using to_number_eq [of 6 "135107988821114875 / 1125899906842624" False]
    by (simp add: round_half_even_def Let_def)
  show ?thesis
    by (simp add: percentage_spec_def quotient product)
qed

lemma percentage_minus_1_of_5:
  "percentage_spec (Finite True 1) (Finite False 5) = Finite True 20"
proof -
  have quotient: "to_number True (1 / 5) = Finite True (3602879701896397 / 18014398509481984)"
    using to_number_eq [of "- 3" "1 / 5" True]
    by (simp add: round_half_even_def Let_def)
  have product: "to_number True (90071992547409925 / 4503599627370496) = Finite True 20"
    using to_number_eq [of 4 "90071992547409925 / 4503599627370496" True]
    by (simp add: round_half_even_def Let_def)
  show ?thesis
    by (simp add: percentage_spec_def quotient product)
qed


section \<open>Properties of the ProgressTracker\<close>

lemma ProgressTracker_returns: "\<exists>tree. ProgressTracker props = Inr tree"
  by (simp add: ProgressTracker_def Let_def)

lemma ProgressTracker_bar_width:
  assumes "ProgressTracker props = Inr tree"
  shows "bar_width tree
    = Some (Number_toString (percentage_spec (completedTasks props) (totalTasks props)) @ ''%'')"
proof -
  from assms have "tree = projr (ProgressTracker props)"
    by simp
  then show ?thesis
    by (simp add: ProgressTracker_def percentage_spec_def Let_def bar_width_def)
qed

lemma ProgressTracker_counts_text:
  assumes "ProgressTracker props = Inr tree"
  shows "counts_text tree
    = Some (Number_toString (completedTasks props) @ '' of ''
        @ Number_toString (totalTasks props) @ '' tasks completed (''
        @ Number_toString (percentage_spec (completedTasks props) (totalTasks props)) @ ''%)'')"
proof -
  from assms have "tree = projr (ProgressTracker props)"
    by simp
  then show ?thesis
    by (simp add: ProgressTracker_def percentage_spec_def Let_def counts_text_def)
qed

text \<open>
  Claim C1. For every input the component computes
  \<^verbatim>\<open>percentage = round(completedTasks / totalTasks * 100)\<close> and returns exactly one
  element: a heading with the section, a bar whose filled part has that percentage as
  its width, and a paragraph with the two counts and the percentage. The result is a
  function of the props alone.
\<close>
theorem ProgressTracker_renders:
  "ProgressTracker props =
     Inr (Element ''div'' [(''className'', StringValue ''progress-tracker'')]
       [Element ''h3'' []
          [TextChild ''Section '', NumberChild (section_prop props), TextChild '' Progress''],
        Element ''div'' [(''className'', StringValue ''progress-bar'')]
          [Element ''div''
             [(''className'', StringValue ''progress''),
              (''style'', StyleObject [(''width'',
                 Number_toString (percentage_spec (completedTasks props) (totalTasks props))
                   @ ''%'')])]
             []],
        Element ''p'' []
          [NumberChild (completedTasks props), TextChild '' of '',
           NumberChild (totalTasks props), TextChild '' tasks completed ('',
           NumberChild (percentage_spec (completedTasks props) (totalTasks props)),
           TextChild ''%)'']])
   \<and> (\<exists>tree. ProgressTracker props = Inr tree
        \<and> bar_width tree
          = Some (Number_toString (percentage_spec (completedTasks props) (totalTasks props))
              @ ''%'')
        \<and> counts_text tree
          = Some (Number_toString (completedTasks props) @ '' of ''
              @ Number_toString (totalTasks props) @ '' tasks completed (''
              @ Number_toString (percentage_spec (completedTasks props) (totalTasks props))
              @ ''%)''))"
proof -
  obtain tree where tree: "ProgressTracker props = Inr tree"
    using ProgressTracker_returns by blast
  have "ProgressTracker props =
     Inr (Element ''div'' [(''className'', StringValue ''progress-tracker'')]
       [Element ''h3'' []
          [TextChild ''Section '', NumberChild (section_prop props), TextChild '' Progress''],
        Element ''div'' [(''className'', StringValue ''progress-bar'')]
          [Element ''div''
             [(''className'', StringValue ''progress''),
              (''style'', StyleObject [(''width'',
                 Number_toString (percentage_spec (completedTasks props) (totalTasks props))
                   @ ''%'')])]
             []],
        Element ''p'' []
          [NumberChild (completedTasks props), TextChild '' of '',
           NumberChild (totalTasks props), TextChild '' tasks completed ('',
           NumberChild (percentage_spec (completedTasks props) (totalTasks props)),
           TextChild ''%)'']])"
    by (simp add: ProgressTracker_def percentage_spec_def Let_def)
  moreover note ProgressTracker_bar_width [OF tree] ProgressTracker_counts_text [OF tree]
  ultimately show ?thesis
    using tree by blast
qed

theorem ProgressTracker_renders_witness:
  "\<exists>tree. ProgressTracker
       \<lparr>section_prop = Finite False 1, completedTasks = Finite False 1,
          totalTasks = Finite False 5\<rparr> = Inr tree
     \<and> bar_width tree = Some ''20%''
     \<and> counts_text tree = Some ''1 of 5 tasks completed (20%)''"
proof -
  let ?props = "\<lparr>section_prop = Finite False 1, completedTasks = Finite False 1,
    totalTasks = Finite False 5\<rparr>"
  from ProgressTracker_renders [of ?props] obtain tree where
    tree: "ProgressTracker ?props = Inr tree"
    and width: "bar_width tree
      = Some (Number_toString (percentage_spec (completedTasks ?props) (totalTasks ?props))
          @ ''%'')"
    and counts: "counts_text tree
      = Some (Number_toString (completedTasks ?props) @ '' of ''
          @ Number_toString (totalTasks ?props) @ '' tasks completed (''
          @ Number_toString (percentage_spec (completedTasks ?props) (totalTasks ?props))
          @ ''%)'')"
    by blast
  have "bar_width tree = Some ''20%''"
    using width by (simp add: percentage_1_of_5 Number_toString_20)
  moreover have "counts_text tree = Some ''1 of 5 tasks completed (20%)''"
    using counts
    by (simp add: percentage_1_of_5 Number_toString_20 Number_toString_1 Number_toString_5)
  ultimately show ?thesis
    using tree by blast
qed


lemma Number_equal_zero:
  "Number_equal t (Finite False 0) = (\<exists>s. t = Finite s 0)"
  by (cases t) (auto simp: signed_def)

lemma percentage_zero_total:
  "percentage_spec c (Finite s 0)
     = (case c of
          NaN \<Rightarrow> NaN
        | Infinity sc \<Rightarrow> Infinity (sc \<noteq> s)
        | Finite sc mc \<Rightarrow> if mc = 0 then NaN else Infinity (sc \<noteq> s))"
  by (cases c) (simp_all add: percentage_spec_def)

text \<open>
  Claim C2, as the code has it. ProgressTracker validates nothing: with
  \<^verbatim>\<open>totalTasks == 0\<close> it is not rejected but returns its element, whose percentage is NaN
  or an infinity, so that the bar width is \<^verbatim>\<open>NaN%\<close>, \<^verbatim>\<open>Infinity%\<close> or \<^verbatim>\<open>-Infinity%\<close>.
\<close>
theorem ProgressTracker_zero_total_not_rejected:
  assumes "Number_equal (totalTasks props) (Finite False 0)"
  shows "(\<forall>e. ProgressTracker props \<noteq> Inl e)
    \<and> (\<exists>tree. ProgressTracker props = Inr tree
         \<and> bar_width tree \<in> {Some ''NaN%'', Some ''Infinity%'', Some ''-Infinity%''})"
proof -
  obtain tree where tree: "ProgressTracker props = Inr tree"
    using ProgressTracker_returns by blast
  from assms obtain s where t: "totalTasks props = Finite s 0"
    by (auto simp: Number_equal_zero)
  have "percentage_spec (completedTasks props) (totalTasks props)
      \<in> {NaN, Infinity False, Infinity True}"
    unfolding t percentage_zero_total by (cases "completedTasks props") auto
  then have "bar_width tree \<in> {Some ''NaN%'', Some ''Infinity%'', Some ''-Infinity%''}"
    unfolding ProgressTracker_bar_width [OF tree] by auto
  with tree show ?thesis
    by auto
qed

theorem ProgressTracker_zero_total_not_rejected_witness:
  "Number_equal (Finite False 0) (Finite False 0)
   \<and> (\<exists>tree. ProgressTracker
          \<lparr>section_prop = Finite False 1, completedTasks = Finite False 3,
             totalTasks = Finite False 0\<rparr> = Inr tree
        \<and> bar_width tree \<in> {Some ''NaN%'', Some ''Infinity%'', Some ''-Infinity%''})"
proof -
  let ?props = "\<lparr>section_prop = Finite False 1, completedTasks = Finite False 3,
    totalTasks = Finite False 0\<rparr>"
  have zero: "Number_equal (totalTasks ?props) (Finite False 0)"
    by (simp add: signed_def)
  from ProgressTracker_zero_total_not_rejected [OF zero] zero show ?thesis
    by simp
qed

theorem ProgressTracker_zero_total_counterexample:
  "Number_equal (Finite False 0) (Finite False 0)
   \<and> (\<forall>e. ProgressTracker
          \<lparr>section_prop = Finite False 1, completedTasks = Finite False 0,
             totalTasks = Finite False 0\<rparr> \<noteq> Inl e)
   \<and> (\<exists>tree. ProgressTracker
          \<lparr>section_prop = Finite False 1, completedTasks = Finite False 0,
             totalTasks = Finite False 0\<rparr> = Inr tree
        \<and> bar_width tree = Some ''NaN%''
        \<and> counts_text tree = Some ''0 of 0 tasks completed (NaN%)'')"
proof -
  let ?props = "\<lparr>section_prop = Finite False 1, completedTasks = Finite False 0,
    totalTasks = Finite False 0\<rparr>"
  obtain tree where tree: "ProgressTracker ?props = Inr tree"
    using ProgressTracker_returns by blast
  have pct: "percentage_spec (completedTasks ?props) (totalTasks ?props) = NaN"
    by (simp add: percentage_spec_def)
  have "bar_width tree = Some ''NaN%''"
    unfolding ProgressTracker_bar_width [OF tree] pct by simp
  moreover have "counts_text tree = Some ''0 of 0 tasks completed (NaN%)''"
    unfolding ProgressTracker_counts_text [OF tree] pct
    by (simp add: Number_toString.simps(3))
  ultimately show ?thesis
    using tree by (simp add: signed_def)
qed

text \<open>
  Claim C9, as the code has it. For every input with \<^verbatim>\<open>totalTasks == 0\<close> the component
  does not raise and returns its element. The percentage is NaN when
  \<^verbatim>\<open>completedTasks == 0\<close>, shown as \<^verbatim>\<open>NaN%\<close>. When \<^verbatim>\<open>completedTasks > 0\<close> it is an
  infinity with the sign of the zero: \<^verbatim>\<open>Infinity\<close> for \<open>+0\<close> and \<^verbatim>\<open>-Infinity\<close> for \<open>-0\<close>.
  Rendering is total: every input gives an element.
\<close>
theorem ProgressTracker_zero_total_percentage:
  assumes "is_double (completedTasks props)"
    and "Number_equal (totalTasks props) (Finite False 0)"
  shows "\<exists>tree. ProgressTracker props = Inr tree
    \<and> (Number_equal (completedTasks props) (Finite False 0) \<longrightarrow>
          percentage_spec (completedTasks props) (totalTasks props) = NaN
          \<and> bar_width tree = Some ''NaN%'')
    \<and> (Number_lessThan (Finite False 0) (completedTasks props) \<longrightarrow>
          percentage_spec (completedTasks props) (totalTasks props)
            = (if totalTasks props = Finite True 0 then Infinity True else Infinity False)
          \<and> bar_width tree
            = Some (if totalTasks props = Finite True 0 then ''-Infinity%'' else ''Infinity%''))
    \<and> (\<forall>other. \<exists>tree'. ProgressTracker other = Inr tree')"
proof -
  obtain tree where tree: "ProgressTracker props = Inr tree"
    using ProgressTracker_returns by blast
  from assms(2) obtain s where t: "totalTasks props = Finite s 0"
    by (auto simp: Number_equal_zero)
  let ?pct = "percentage_spec (completedTasks props) (totalTasks props)"
  have width: "bar_width tree = Some (Number_toString ?pct @ ''%'')"
    by (rule ProgressTracker_bar_width [OF tree])
  have zero: "?pct = NaN \<and> bar_width tree = Some ''NaN%''"
    if "Number_equal (completedTasks props) (Finite False 0)"
  proof -
    from that obtain sc where "completedTasks props = Finite sc 0"
      by (auto simp: Number_equal_zero)
    then have "?pct = NaN"
      by (simp add: t percentage_zero_total)
    then show ?thesis
      by (simp add: width)
  qed
  have pos: "?pct = (if totalTasks props = Finite True 0 then Infinity True else Infinity False)
      \<and> bar_width tree
        = Some (if totalTasks props = Finite True 0 then ''-Infinity%'' else ''Infinity%'')"
    if "Number_lessThan (Finite False 0) (completedTasks props)"
  proof -
    have "?pct = Infinity s"
    proof (cases "completedTasks props")
      case NaN
      with that show ?thesis by simp
    next
      case (Infinity sc)
      with that show ?thesis
        by (simp add: t percentage_zero_total)
    next
      case (Finite sc mc)
      with that assms(1) have "\<not> sc" "mc \<noteq> 0"
        by (auto simp: signed_def split: if_splits)
      with Finite show ?thesis
        by (simp add: t percentage_zero_total)
    qed
    then show ?thesis
      by (cases s) (simp_all add: width t)
  qed
  from tree zero pos ProgressTracker_returns show ?thesis
    by blast
qed

theorem ProgressTracker_zero_total_percentage_witness:
  "percentage_spec (Finite False 0) (Finite False 0) = NaN
   \<and> (\<exists>tree. ProgressTracker
          \<lparr>section_prop = Finite False 1, completedTasks = Finite False 0,
             totalTasks = Finite False 0\<rparr> = Inr tree
        \<and> bar_width tree = Some ''NaN%'')
   \<and> percentage_spec (Finite False 1) (Finite False 0) = Infinity False
   \<and> (\<exists>tree. ProgressTracker
          \<lparr>section_prop = Finite False 1, completedTasks = Finite False 1,
             totalTasks = Finite False 0\<rparr> = Inr tree
        \<and> bar_width tree = Some ''Infinity%'')"
proof -
  let ?none = "\<lparr>section_prop = Finite False 1, completedTasks = Finite False 0,
    totalTasks = Finite False 0\<rparr>"
  let ?one = "\<lparr>section_prop = Finite False 1, completedTasks = Finite False 1,
    totalTasks = Finite False 0\<rparr>"
  have doubles: "is_double (completedTasks ?none)" "is_double (completedTasks ?one)"
    by (simp_all add: to_number_zero to_number_one)
  have zero: "Number_equal (totalTasks ?none) (Finite False 0)"
    "Number_equal (totalTasks ?one) (Finite False 0)"
    by (simp_all add: signed_def)
  have none: "Number_equal (completedTasks ?none) (Finite False 0)"
    by (simp add: signed_def)
  have one: "Number_lessThan (Finite False 0) (completedTasks ?one)"
    by (simp add: signed_def)
  from ProgressTracker_zero_total_percentage [OF doubles(1) zero(1)] none
  have "percentage_spec (Finite False 0) (Finite False 0) = NaN
      \<and> (\<exists>tree. ProgressTracker ?none = Inr tree \<and> bar_width tree = Some ''NaN%'')"
    by auto
  moreover from ProgressTracker_zero_total_percentage [OF doubles(2) zero(2)] one
  have "percentage_spec (Finite False 1) (Finite False 0) = Infinity False
      \<and> (\<exists>tree. ProgressTracker ?one = Inr tree \<and> bar_width tree = Some ''Infinity%'')"
    by auto
  ultimately show ?thesis
    by blast
qed

theorem ProgressTracker_negative_zero_counterexample:
  "is_double (Finite False 1) \<and> is_double (Finite True 0)
   \<and> Number_equal (Finite True 0) (Finite False 0)
   \<and> Number_lessThan (Finite False 0) (Finite False 1)
   \<and> percentage_spec (Finite False 1) (Finite True 0) = Infinity True
   \<and> percentage_spec (Finite False 1) (Finite True 0) \<noteq> Infinity False
   \<and> (\<exists>tree. ProgressTracker
          \<lparr>section_prop = Finite False 1, completedTasks = Finite False 1,
             totalTasks = Finite True 0\<rparr> = Inr tree
        \<and> bar_width tree = Some ''-Infinity%'')"
proof -
  let ?props = "\<lparr>section_prop = Finite False 1, completedTasks = Finite False 1,
    totalTasks = Finite True 0\<rparr>"
  obtain tree where tree: "ProgressTracker ?props = Inr tree"
    using ProgressTracker_returns by blast
  have pct: "percentage_spec (Finite False 1) (Finite True 0) = Infinity True"
    by (simp add: percentage_spec_def)
  have "bar_width tree = Some ''-Infinity%''"
    unfolding ProgressTracker_bar_width [OF tree] by (simp add: pct)
  with tree pct show ?thesis
    by (simp add: signed_def to_number_one to_number_zero)
qed



lemma positive_double:
  assumes "is_double t" "Number_lessThan (Finite False 0) t"
  shows "t = Infinity False \<or> (\<exists>m. t = Finite False m \<and> 0 < m)"
  using assms by (cases t) (auto simp: signed_def split: if_splits)

lemma negative_double:
  assumes "is_double c" "Number_lessThan c (Finite False 0)"
  shows "c = Infinity True \<or> (\<exists>m. c = Finite True m \<and> 0 < m)"
  using assms by (cases c) (auto simp: signed_def split: if_splits)

text \<open>
  Claim C10, as the code has it. The percentage is not clamped to \<open>[0, 100]\<close>. For every
  input with \<^verbatim>\<open>totalTasks > 0\<close> and \<^verbatim>\<open>completedTasks > totalTasks\<close> the percentage, which is
  what the paragraph shows and what the bar width is made of, is at least 100; it is
  120 for 6 of 5 tasks. For \<^verbatim>\<open>completedTasks < 0\<close> and a finite \<^verbatim>\<open>totalTasks > 0\<close> it is at
  most 0; it is -20 for -1 of 5 tasks.
\<close>
theorem percentage_not_clamped:
  assumes "is_double (completedTasks props)" "is_double (totalTasks props)"
    and "Number_lessThan (Finite False 0) (totalTasks props)"
  shows "\<exists>tree. ProgressTracker props = Inr tree
    \<and> bar_width tree
      = Some (Number_toString (percentage_spec (completedTasks props) (totalTasks props))
          @ ''%'')
    \<and> (Number_lessThan (totalTasks props) (completedTasks props) \<longrightarrow>
          Number_lessEq (Finite False 100)
            (percentage_spec (completedTasks props) (totalTasks props)))
    \<and> (Number_lessThan (completedTasks props) (Finite False 0)
          \<and> totalTasks props \<noteq> Infinity False \<longrightarrow>
          Number_lessEq (percentage_spec (completedTasks props) (totalTasks props))
            (Finite False 0))
    \<and> percentage_spec (Finite False 6) (Finite False 5) = Finite False 120
    \<and> percentage_spec (Finite True 1) (Finite False 5) = Finite True 20"
proof -
  let ?c = "completedTasks props" and ?t = "totalTasks props"
  obtain tree where tree: "ProgressTracker props = Inr tree"
    using ProgressTracker_returns by blast
  have above: "Number_lessEq (Finite False 100) (percentage_spec ?c ?t)"
    if less: "Number_lessThan ?t ?c"
  proof -
    from positive_double [OF assms(2,3)] less obtain mt where
      t: "?t = Finite False mt" and mt: "0 < mt"
      by (cases ?c) auto
    have "0 < signed False mt"
      using mt by (simp add: signed_def)
    then have "Number_lessThan (Finite False 0) ?c"
      using less unfolding t by (cases ?c) (auto simp: signed_def)
    from positive_double [OF assms(1) this] show ?thesis
    proof
      assume c: "?c = Infinity False"
      show ?thesis
        using mt by (simp add: c t percentage_spec_def Number_lessEq_def)
    next
      assume "\<exists>m. ?c = Finite False m \<and> 0 < m"
      then obtain mc where c: "?c = Finite False mc"
        by blast
      with less t have "mt < mc"
        by (simp add: signed_def)
      from percentage_at_least_100 [OF mt this] show ?thesis
        by (auto simp: c t Number_lessEq_def signed_def)
    qed
  qed
  have below: "Number_lessEq (percentage_spec ?c ?t) (Finite False 0)"
    if neg: "Number_lessThan ?c (Finite False 0)" and fin: "?t \<noteq> Infinity False"
  proof -
    from positive_double [OF assms(2,3)] fin obtain mt where
      t: "?t = Finite False mt" and mt: "0 < mt"
      by auto
    from negative_double [OF assms(1) neg] show ?thesis
    proof
      assume c: "?c = Infinity True"
      show ?thesis
        using mt by (simp add: c t percentage_spec_def Number_lessEq_def)
    next
      assume "\<exists>m. ?c = Finite True m \<and> 0 < m"
      then obtain mc where c: "?c = Finite True mc" and "0 \<le> mc"
        by auto
      from percentage_at_most_0 [OF mt this(2)] show ?thesis
        by (auto simp: c t Number_lessEq_def signed_def)
    qed
  qed
  from tree ProgressTracker_bar_width [OF tree] above below
    percentage_6_of_5 percentage_minus_1_of_5
  show ?thesis
    by blast
qed

theorem percentage_not_clamped_witness:
  "Number_lessThan (Finite False 0) (Finite False 5)
   \<and> Number_lessThan (Finite False 5) (Finite False 6)
   \<and> Number_lessEq (Finite False 100) (percentage_spec (Finite False 6) (Finite False 5))
   \<and> Number_lessThan (Finite False 100) (percentage_spec (Finite False 6) (Finite False 5))
   \<and> (\<exists>tree. ProgressTracker
          \<lparr>section_prop = Finite False 1, completedTasks = Finite False 6,
             totalTasks = Finite False 5\<rparr> = Inr tree
        \<and> bar_width tree = Some ''120%'')
   \<and> Number_lessThan (Finite True 1) (Finite False 0)
   \<and> Number_lessEq (percentage_spec (Finite True 1) (Finite False 5)) (Finite False 0)
   \<and> Number_lessThan (percentage_spec (Finite True 1) (Finite False 5)) (Finite False 0)
   \<and> (\<exists>tree. ProgressTracker
          \<lparr>section_prop = Finite False 1, completedTasks = Finite True 1,
             totalTasks = Finite False 5\<rparr> = Inr tree
        \<and> bar_width tree = Some ''-20%'')"
proof -
  let ?over = "\<lparr>section_prop = Finite False 1, completedTasks = Finite False 6,
    totalTasks = Finite False 5\<rparr>"
  let ?under = "\<lparr>section_prop = Finite False 1, completedTasks = Finite True 1,
    totalTasks = Finite False 5\<rparr>"
  have doubles: "is_double (completedTasks ?over)" "is_double (totalTasks ?over)"
    "is_double (completedTasks ?under)" "is_double (totalTasks ?under)"
    by (simp_all add: to_number_numeral to_number_one)
  have pos: "Number_lessThan (Finite False 0) (totalTasks ?over)"
    "Number_lessThan (Finite False 0) (totalTasks ?under)"
    by (simp_all add: signed_def)
  have more: "Number_lessThan (totalTasks ?over) (completedTasks ?over)"
    by (simp add: signed_def)
  have neg: "Number_lessThan (completedTasks ?under) (Finite False 0)"
    "totalTasks ?under \<noteq> Infinity False"
    by (simp_all add: signed_def)
  from percentage_not_clamped [OF doubles(1,2) pos(1)] more obtain tree where
    tree: "ProgressTracker ?over = Inr tree"
    and width: "bar_width tree
      = Some (Number_toString (percentage_spec (completedTasks ?over) (totalTasks ?over))
          @ ''%'')"
    and above: "Number_lessEq (Finite False 100)
      (percentage_spec (completedTasks ?over) (totalTasks ?over))"
    and over: "percentage_spec (Finite False 6) (Finite False 5) = Finite False 120"
    by blast
  from percentage_not_clamped [OF doubles(3,4) pos(2)] neg obtain tree' where
    tree': "ProgressTracker ?under = Inr tree'"
    and width': "bar_width tree'
      = Some (Number_toString (percentage_spec (completedTasks ?under) (totalTasks ?under))
          @ ''%'')"
    and below: "Number_lessEq (percentage_spec (completedTasks ?under) (totalTasks ?under))
      (Finite False 0)"
    and under: "percentage_spec (Finite True 1) (Finite False 5) = Finite True 20"
    by blast
  have "bar_width tree = Some ''120%''"
    unfolding width by (simp add: over Number_toString_120)
  with tree have shown: "\<exists>tree. ProgressTracker ?over = Inr tree
      \<and> bar_width tree = Some ''120%''"
    by blast
  have "bar_width tree' = Some ''-20%''"
    unfolding width' by (simp add: under Number_toString_minus_20)
  with tree' have shown': "\<exists>tree. ProgressTracker ?under = Inr tree
      \<and> bar_width tree = Some ''-20%''"
    by blast
  have strict: "Number_lessThan (Finite False 100)
      (percentage_spec (Finite False 6) (Finite False 5))"
    "Number_lessThan (percentage_spec (Finite True 1) (Finite False 5)) (Finite False 0)"
    by (simp_all add: over under signed_def)
  from above below have "Number_lessEq (Finite False 100)
      (percentage_spec (Finite False 6) (Finite False 5))"
    and "Number_lessEq (percentage_spec (Finite True 1) (Finite False 5)) (Finite False 0)"
    by simp_all
  with shown shown' strict show ?thesis
    by (simp add: signed_def)
qed

theorem percentage_not_clamped_counterexample:
  "is_double (Finite False 1001) \<and> is_double (Finite False 1000) \<and> is_double (Finite True 1)
   \<and> Number_lessThan (Finite False 0) (Finite False 1000)
   \<and> Number_lessThan (Finite False 1000) (Finite False 1001)
   \<and> percentage_spec (Finite False 1001) (Finite False 1000) = Finite False 100
   \<and> \<not> Number_lessThan (Finite False 100)
         (percentage_spec (Finite False 1001) (Finite False 1000))
   \<and> (\<exists>tree. ProgressTracker
          \<lparr>section_prop = Finite False 1, completedTasks = Finite False 1001,
             totalTasks = Finite False 1000\<rparr> = Inr tree
        \<and> bar_width tree = Some ''100%'')
   \<and> Number_lessThan (Finite True 1) (Finite False 0)
   \<and> percentage_spec (Finite True 1) (Finite False 1000) = Finite True 0
   \<and> \<not> Number_lessThan (percentage_spec (Finite True 1) (Finite False 1000))
         (Finite False 0)
   \<and> (\<exists>tree. ProgressTracker
          \<lparr>section_prop = Finite False 1, completedTasks = Finite True 1,
             totalTasks = Finite False 1000\<rparr> = Inr tree
        \<and> bar_width tree = Some ''0%'')
   \<and> Number_lessThan (Infinity True) (Finite False 0)
   \<and> Number_lessThan (Finite False 0) (Infinity False)
   \<and> percentage_spec (Infinity True) (Infinity False) = NaN"
proof -
  let ?over = "\<lparr>section_prop = Finite False 1, completedTasks = Finite False 1001,
    totalTasks = Finite False 1000\<rparr>"
  let ?under = "\<lparr>section_prop = Finite False 1, completedTasks = Finite True 1,
    totalTasks = Finite False 1000\<rparr>"
  obtain tree where tree: "ProgressTracker ?over = Inr tree"
    using ProgressTracker_returns by blast
  obtain tree' where tree': "ProgressTracker ?under = Inr tree'"
    using ProgressTracker_returns by blast
  have "bar_width tree = Some ''100%''"
    unfolding ProgressTracker_bar_width [OF tree]
    by (simp add: percentage_1001_of_1000 Number_toString_100)
  with tree have over: "\<exists>tree. ProgressTracker ?over = Inr tree
      \<and> bar_width tree = Some ''100%''"
    by blast
  have "bar_width tree' = Some ''0%''"
    unfolding ProgressTracker_bar_width [OF tree']
    by (simp add: percentage_minus_1_of_1000 Number_toString.simps(3))
  with tree' have under: "\<exists>tree. ProgressTracker ?under = Inr tree
      \<and> bar_width tree = Some ''0%''"
    by blast
  have doubles: "is_double (Finite False 1001)" "is_double (Finite False 1000)"
    "is_double (Finite True 1)"
    by (simp_all add: to_number_numeral to_number_one)
  have "percentage_spec (Infinity True) (Infinity False) = NaN"
    by (simp add: percentage_spec_def)
  then show ?thesis
    using over under doubles
    by (simp add: percentage_1001_of_1000 percentage_minus_1_of_1000 signed_def)
qed

section \<open>Properties of the exercise pages\<close>

text \<open>
  Claim C7, as the pages have it. Every CodingChallenge instance of the exercise pages
  is given exactly two props, named \<^verbatim>\<open>initialCode\<close> and \<^verbatim>\<open>solution\<close>: the reference source
  text arrives under the prop name \<^verbatim>\<open>solution\<close>. There are eight such instances.
\<close>
theorem coding_challenge_props:
  "(\<forall>i \<in> set (coding_challenges exercise_pages).
      prop_names i = [''initialCode'', ''solution''])
   \<and> length (coding_challenges exercise_pages) = 8"
  by (simp add: coding_challenges_def exercise_pages_def introduction_to_react_def
      jsx_syntax_exercises_def react_components_exercises_def)

theorem coding_challenge_props_witness:
  "\<lparr>component = ''CodingChallenge'', prop_names = [''initialCode'', ''solution'']\<rparr>
     \<in> set (coding_challenges introduction_to_react)
   \<and> set (coding_challenges introduction_to_react) \<subseteq> set (coding_challenges exercise_pages)
   \<and> prop_names (hd (coding_challenges introduction_to_react))
     = [''initialCode'', ''solution'']"
proof -
  have first: "hd (coding_challenges introduction_to_react)
      = \<lparr>component = ''CodingChallenge'', prop_names = [''initialCode'', ''solution'']\<rparr>"
    by (simp add: coding_challenges_def introduction_to_react_def)
  have mem: "hd (coding_challenges introduction_to_react)
      \<in> set (coding_challenges introduction_to_react)"
    by (simp add: coding_challenges_def introduction_to_react_def)
  have sub: "set (coding_challenges introduction_to_react)
      \<subseteq> set (coding_challenges exercise_pages)"
    by (auto simp: coding_challenges_def exercise_pages_def)
  from mem sub have "hd (coding_challenges introduction_to_react)
      \<in> set (coding_challenges exercise_pages)"
    by blast
  with coding_challenge_props
  have "prop_names (hd (coding_challenges introduction_to_react))
      = [''initialCode'', ''solution'']"
    by blast
  with first mem sub show ?thesis
    by simp
qed

theorem coding_challenge_props_counterexample:
  "hd (coding_challenges introduction_to_react) \<in> set (coding_challenges exercise_pages)
   \<and> prop_names (hd (coding_challenges introduction_to_react))
     = [''initialCode'', ''solution'']
   \<and> ''solutionCode'' \<notin> set (prop_names (hd (coding_challenges introduction_to_react)))
   \<and> \<not> (\<forall>i \<in> set (coding_challenges exercise_pages).
          set (prop_names i) = {''initialCode'', ''solutionCode''})"
proof -
  have first: "hd (coding_challenges introduction_to_react)
      = \<lparr>component = ''CodingChallenge'', prop_names = [''initialCode'', ''solution'']\<rparr>"
    by (simp add: coding_challenges_def introduction_to_react_def)
  have mem: "hd (coding_challenges introduction_to_react)
      \<in> set (coding_challenges exercise_pages)"
    by (simp add: coding_challenges_def exercise_pages_def introduction_to_react_def)
  have absent: "''solutionCode'' \<notin> set (prop_names (hd (coding_challenges introduction_to_react)))"
    unfolding first by simp
  then have names: "set (prop_names (hd (coding_challenges introduction_to_react)))
      \<noteq> {''initialCode'', ''solutionCode''}"
    by blast
  from mem names
  have "\<not> (\<forall>i \<in> set (coding_challenges exercise_pages).
      set (prop_names i) = {''initialCode'', ''solutionCode''})"
    by blast
  moreover have "prop_names (hd (coding_challenges introduction_to_react))
      = [''initialCode'', ''solution'']"
    unfolding first by simp
  ultimately show ?thesis
    using mem absent by blast
qed


section \<open>Properties of the Quiz\<close>

lemma Quiz_reset_initial: "Quiz_reset st = Quiz_initial"
  by (simp add: Quiz_reset_def Quiz_initial_def)

text \<open>
  Claim C8. After any sequence of \<^verbatim>\<open>select\<close>/\<^verbatim>\<open>submit\<close> calls on a freshly constructed
  Quiz, \<^verbatim>\<open>reset()\<close> gives back the state of a freshly constructed instance:
  \<^verbatim>\<open>selectedOption\<close> unset and \<^verbatim>\<open>submitted\<close> false, the machine state Unanswered. The
  reset is a total function of the state, so it is available from every state.
\<close>
theorem Quiz_reset_fresh:
  assumes "Quiz_new spec = Inr fresh"
  shows "Quiz_reset (Quiz_replay acts fresh) = fresh
    \<and> selectedOption (Quiz_reset (Quiz_replay acts fresh)) = None
    \<and> submitted (Quiz_reset (Quiz_replay acts fresh)) = False
    \<and> Quiz_phase (Quiz_reset (Quiz_replay acts fresh)) = Unanswered
    \<and> Quiz_reset st = fresh"
proof -
  from assms have fresh: "fresh = Quiz_initial"
    by (auto simp: Quiz_new_def split: if_splits)
  have "Quiz_phase Quiz_initial = Unanswered"
    by (simp add: Quiz_phase_def Quiz_initial_def)
  moreover have "selectedOption Quiz_initial = None" "submitted Quiz_initial = False"
    by (simp_all add: Quiz_initial_def)
  ultimately show ?thesis
    by (simp add: fresh Quiz_reset_initial)
qed

theorem Quiz_reset_fresh_witness:
  "Quiz_new \<lparr>question = ''2+2?'', options = [''3'', ''4'', ''5''], correctAnswer = ''4''\<rparr>
     = Inr Quiz_initial
   \<and> Quiz_replay [Select ''4'', Submit] Quiz_initial
     = \<lparr>selectedOption = Some ''4'', submitted = True\<rparr>
   \<and> Quiz_reset (Quiz_replay [Select ''4'', Submit] Quiz_initial) = Quiz_initial
   \<and> Quiz_phase (Quiz_reset (Quiz_replay [Select ''4'', Submit] Quiz_initial)) = Unanswered"
proof -
  have new: "Quiz_new \<lparr>question = ''2+2?'', options = [''3'', ''4'', ''5''],
      correctAnswer = ''4''\<rparr> = Inr Quiz_initial"
    by (simp add: Quiz_new_def)
  have replay: "Quiz_replay [Select ''4'', Submit] Quiz_initial
      = \<lparr>selectedOption = Some ''4'', submitted = True\<rparr>"
    by (simp add: Quiz_replay_def Quiz_select_def Quiz_submit_def Quiz_initial_def)
  from Quiz_reset_fresh [OF new, of "[Select ''4'', Submit]"]
  have "Quiz_reset (Quiz_replay [Select ''4'', Submit] Quiz_initial) = Quiz_initial"
    and "Quiz_phase (Quiz_reset (Quiz_replay [Select ''4'', Submit] Quiz_initial)) = Unanswered"
    by blast+
  with new replay show ?thesis
    by blast
qed


lemma Quiz_new_fresh: "Quiz_new spec = Inr fresh \<Longrightarrow> fresh = Quiz_initial"
  by (auto simp: Quiz_new_def split: if_splits)

lemma isCorrect_select_submit:
  "\<not> submitted st \<Longrightarrow>
     isCorrect spec (Quiz_submit (Quiz_select opt st)) = (opt = correctAnswer spec)"
  by (simp add: isCorrect_def Quiz_submit_def Quiz_select_def)

text \<open>
  Claim C5. For every QuizSpec whose \<^verbatim>\<open>correctAnswer\<close> is one of its \<^verbatim>\<open>options\<close>, the Quiz
  is constructed, and on the fresh instance \<^verbatim>\<open>select(correctAnswer)\<close> then \<^verbatim>\<open>submit()\<close>
  gives \<^verbatim>\<open>isCorrect == true\<close>, while \<^verbatim>\<open>select(o)\<close> for any other \<^verbatim>\<open>o\<close> then \<^verbatim>\<open>submit()\<close>
  gives \<^verbatim>\<open>isCorrect == false\<close>; \<^verbatim>\<open>isCorrect\<close> is
  \<^verbatim>\<open>submitted && selectedOption == correctAnswer\<close>.
\<close>
theorem Quiz_isCorrect_after_submit:
  assumes "correctAnswer spec \<in> set (options spec)"
  shows "\<exists>fresh. Quiz_new spec = Inr fresh
    \<and> isCorrect spec (Quiz_submit (Quiz_select (correctAnswer spec) fresh))
    \<and> (\<forall>opt. opt \<noteq> correctAnswer spec \<longrightarrow>
          \<not> isCorrect spec (Quiz_submit (Quiz_select opt fresh)))
    \<and> (\<forall>st. isCorrect spec st
          = (submitted st \<and> selectedOption st = Some (correctAnswer spec)))"
proof -
  have new: "Quiz_new spec = Inr Quiz_initial"
    using assms by (simp add: Quiz_new_def)
  have unsub: "\<not> submitted Quiz_initial"
    by (simp add: Quiz_initial_def)
  have "isCorrect spec (Quiz_submit (Quiz_select (correctAnswer spec) Quiz_initial))"
    using isCorrect_select_submit [OF unsub] by simp
  moreover have "\<forall>opt. opt \<noteq> correctAnswer spec \<longrightarrow>
      \<not> isCorrect spec (Quiz_submit (Quiz_select opt Quiz_initial))"
    using isCorrect_select_submit [OF unsub] by simp
  moreover have "\<forall>st. isCorrect spec st
      = (submitted st \<and> selectedOption st = Some (correctAnswer spec))"
    by (simp add: isCorrect_def)
  ultimately show ?thesis
    using new by blast
qed

theorem Quiz_isCorrect_after_submit_witness:
  "isCorrect \<lparr>question = ''2+2?'', options = [''3'', ''4'', ''5''], correctAnswer = ''4''\<rparr>
     (Quiz_submit (Quiz_select ''4'' Quiz_initial))
   \<and> \<not> isCorrect \<lparr>question = ''2+2?'', options = [''3'', ''4'', ''5''], correctAnswer = ''4''\<rparr>
     (Quiz_submit (Quiz_select ''5'' Quiz_initial))"
proof -
  let ?spec = "\<lparr>question = ''2+2?'', options = [''3'', ''4'', ''5''], correctAnswer = ''4''\<rparr>"
  have mem: "correctAnswer ?spec \<in> set (options ?spec)"
    by simp
  from Quiz_isCorrect_after_submit [OF mem] obtain fresh where
    new: "Quiz_new ?spec = Inr fresh"
    and yes: "isCorrect ?spec (Quiz_submit (Quiz_select (correctAnswer ?spec) fresh))"
    and no: "\<forall>opt. opt \<noteq> correctAnswer ?spec \<longrightarrow>
      \<not> isCorrect ?spec (Quiz_submit (Quiz_select opt fresh))"
    by blast
  have fresh: "fresh = Quiz_initial"
    using new by (rule Quiz_new_fresh)
  have "''5'' \<noteq> correctAnswer ?spec"
    by simp
  with no have "\<not> isCorrect ?spec (Quiz_submit (Quiz_select ''5'' fresh))"
    by blast
  with yes fresh show ?thesis
    by simp
qed

text \<open>
  Claim C6. Quiz construction validates \<^verbatim>\<open>options.includes(correctAnswer)\<close>: a
  \<^verbatim>\<open>correctAnswer\<close> that is absent from \<^verbatim>\<open>options\<close> is rejected with a configuration error
  at construction time, and no instance is constructed; every other QuizSpec is
  constructed in the initial state.
\<close>
theorem Quiz_new_validates:
  "(Quiz_new spec = Inl ConfigurationError) = (correctAnswer spec \<notin> set (options spec))
   \<and> (Quiz_new spec = Inr Quiz_initial) = (correctAnswer spec \<in> set (options spec))
   \<and> ((\<exists>st. Quiz_new spec = Inr st) = (correctAnswer spec \<in> set (options spec)))"
  by (simp add: Quiz_new_def)

theorem Quiz_new_validates_witness:
  "Quiz_new \<lparr>question = ''2+2?'', options = [''3'', ''4'', ''5''], correctAnswer = ''6''\<rparr>
     = Inl ConfigurationError
   \<and> Quiz_new \<lparr>question = ''2+2?'', options = [''3'', ''4'', ''5''], correctAnswer = ''4''\<rparr>
     = Inr Quiz_initial"
  using
    Quiz_new_validates [of "\<lparr>question = ''2+2?'', options = [''3'', ''4'', ''5''],
      correctAnswer = ''6''\<rparr>"]
    Quiz_new_validates [of "\<lparr>question = ''2+2?'', options = [''3'', ''4'', ''5''],
      correctAnswer = ''4''\<rparr>"]
  by simp


section \<open>Properties of the CodingChallenge\<close>

lemma viewingSolution_edits: "viewingSolution (edits texts st) = viewingSolution st"
  unfolding edits_def
  by (induction texts arbitrary: st) (simp_all add: edit_def)

lemma viewingSolution_new: "viewingSolution (Challenge_new spec) = False"
  by (simp add: Challenge_new_def)

text \<open>
  Claim C3. In every CodingChallenge state \<^verbatim>\<open>showSolution()\<close> leaves \<^verbatim>\<open>draftCode\<close> as it
  is, and \<^verbatim>\<open>showSolution()\<close> followed by \<^verbatim>\<open>hideSolution()\<close> gives a state with the same
  \<^verbatim>\<open>draftCode\<close>, which the editor then shows again. In a state reached from a new
  instance by any sequence of \<^verbatim>\<open>edit()\<close> calls, the two calls give back the whole state.
\<close>
theorem showSolution_hideSolution_draftCode:
  "draftCode (showSolution st) = draftCode st
   \<and> draftCode (hideSolution (showSolution st)) = draftCode st
   \<and> displayedCode spec (hideSolution (showSolution st)) = draftCode st
   \<and> hideSolution (showSolution (edits texts (Challenge_new spec)))
       = edits texts (Challenge_new spec)"
proof -
  have "viewingSolution (edits texts (Challenge_new spec)) = False"
    by (simp add: viewingSolution_edits viewingSolution_new)
  then have "hideSolution (showSolution (edits texts (Challenge_new spec)))
      = edits texts (Challenge_new spec)"
    by (simp add: hideSolution_def showSolution_def)
  then show ?thesis
    by (simp add: hideSolution_def showSolution_def displayedCode_def)
qed

theorem showSolution_hideSolution_draftCode_witness:
  "displayedCode \<lparr>initialCode = ''return 1;'', solutionCode = ''return 2;''\<rparr>
     (showSolution (edits [''return 3;'']
       (Challenge_new \<lparr>initialCode = ''return 1;'', solutionCode = ''return 2;''\<rparr>)))
     = ''return 2;''
   \<and> draftCode (hideSolution (showSolution (edits [''return 3;'']
       (Challenge_new \<lparr>initialCode = ''return 1;'', solutionCode = ''return 2;''\<rparr>))))
     = ''return 3;''
   \<and> displayedCode \<lparr>initialCode = ''return 1;'', solutionCode = ''return 2;''\<rparr>
     (hideSolution (showSolution (edits [''return 3;'']
       (Challenge_new \<lparr>initialCode = ''return 1;'', solutionCode = ''return 2;''\<rparr>))))
     = ''return 3;''"
proof -
  let ?spec = "\<lparr>initialCode = ''return 1;'', solutionCode = ''return 2;''\<rparr>"
  let ?st = "edits [''return 3;''] (Challenge_new ?spec)"
  have draft: "draftCode ?st = ''return 3;''"
    by (simp add: edits_def edit_def Challenge_new_def)
  have shown: "displayedCode ?spec (showSolution ?st) = ''return 2;''"
    by (simp add: displayedCode_def showSolution_def)
  from showSolution_hideSolution_draftCode [of ?st ?spec]
  have "draftCode (hideSolution (showSolution ?st)) = draftCode ?st"
    and "displayedCode ?spec (hideSolution (showSolution ?st)) = draftCode ?st"
    by blast+
  with draft shown show ?thesis
    by simp
qed

text \<open>
  Claim C4. For every code string whose evaluation throws or fails to parse,
  \<^verbatim>\<open>CodeSandbox.run\<close> returns an error \<^verbatim>\<open>Result\<close> and no exception leaves it; \<^verbatim>\<open>run()\<close> of a
  CodingChallenge that displays such code returns normally with the error description
  stored in \<^verbatim>\<open>lastRunOutput\<close>, and \<^verbatim>\<open>draftCode\<close> and \<^verbatim>\<open>viewingSolution\<close> are unchanged.
\<close>
theorem run_failing_code:
  assumes "evaluate code = Throws msg \<or> evaluate code = ParseFails msg"
    and "displayedCode spec st = code"
  shows "CodeSandbox_run evaluate code = Inr (Error msg)
    \<and> (\<exists>st'. run evaluate spec st = Inr st'
          \<and> lastRunOutput st' = Some (Error msg)
          \<and> draftCode st' = draftCode st
          \<and> viewingSolution st' = viewingSolution st)"
proof -
  from assms(1) have sandbox: "CodeSandbox_run evaluate code = Inr (Error msg)"
    by (auto simp: CodeSandbox_run_def)
  with assms(2) have "run evaluate spec st = Inr (st\<lparr>lastRunOutput := Some (Error msg)\<rparr>)"
    by (simp add: run_def)
  with sandbox show ?thesis
    by simp
qed

theorem run_failing_code_witness:
  "CodeSandbox_run
     (\<lambda>c. if c = ''return 1;'' then Completes ''1'' else ParseFails ''SyntaxError'')
     ''return ('' = Inr (Error ''SyntaxError'')
   \<and> run (\<lambda>c. if c = ''return 1;'' then Completes ''1'' else ParseFails ''SyntaxError'')
       \<lparr>initialCode = ''return 1;'', solutionCode = ''return 2;''\<rparr>
       \<lparr>draftCode = ''return ('', viewingSolution = False, lastRunOutput = None\<rparr>
     = Inr \<lparr>draftCode = ''return ('', viewingSolution = False,
         lastRunOutput = Some (Error ''SyntaxError'')\<rparr>"
proof -
  let ?ev = "\<lambda>c. if c = ''return 1;'' then Completes ''1'' else ParseFails ''SyntaxError''"
  let ?spec = "\<lparr>initialCode = ''return 1;'', solutionCode = ''return 2;''\<rparr>"
  let ?st = "\<lparr>draftCode = ''return ('', viewingSolution = False, lastRunOutput = None\<rparr>"
  have fails: "?ev ''return ('' = Throws ''SyntaxError''
      \<or> ?ev ''return ('' = ParseFails ''SyntaxError''"
    by simp
  have shown: "displayedCode ?spec ?st = ''return (''"
    by (simp add: displayedCode_def)
  from run_failing_code [of ?ev "''return (''" "''SyntaxError''" ?spec ?st, OF fails shown]
  obtain st' where
    sandbox: "CodeSandbox_run ?ev ''return ('' = Inr (Error ''SyntaxError'')"
    and ran: "run ?ev ?spec ?st = Inr st'"
    and out: "lastRunOutput st' = Some (Error ''SyntaxError'')"
    and draft: "draftCode st' = draftCode ?st"
    and view: "viewingSolution st' = viewingSolution ?st"
    by blast
  from out draft view have "st' = \<lparr>draftCode = ''return ('', viewingSolution = False,
      lastRunOutput = Some (Error ''SyntaxError'')\<rparr>"
    by (cases st') simp
  with sandbox ran show ?thesis
    by simp
qed


end
